theory Spec2Isabelle
  imports Main "HOL-Library.Word"
begin

unbundle bit_operations_syntax

section \<open>Bytes, errors and Go results\<close>

type_synonym byte = "8 word"

text \<open>
  The error values of the program. The Go code builds them with \<open>fmt.Errorf\<close>; each
  constructor stands for one message of the source (or for an error handed on from the
  standard library).
\<close>

datatype error =
    KeySizeError nat              \<comment> \<open>\<open>aes.NewCipher\<close>: the key is not 16, 24 or 32 bytes long\<close>
  | RandError                     \<comment> \<open>\<open>io.ReadFull(rand.Reader, ...)\<close> failed\<close>
  | CiphertextTooShort            \<comment> \<open>"ciphertext too short"\<close>
  | NotBlockMultiple              \<comment> \<open>"ciphertext length not multiple of block size"\<close>
  | DataEmpty                     \<comment> \<open>"data is empty"\<close>
  | InvalidPadding                \<comment> \<open>"invalid padding"\<close>
  | InvalidRoomKey                \<comment> \<open>"invalid room key: ..."\<close>
  | RoomKeyLength                 \<comment> \<open>"room key length incorrect, should be 16 bytes"\<close>
  | ResponseTooShort              \<comment> \<open>"response data too short"\<close>
  | InvalidResponseType           \<comment> \<open>"invalid STUN response type"\<close>
  | ResponseIncomplete            \<comment> \<open>"response data incomplete"\<close>
  | MappedAddressNotFound         \<comment> \<open>"mapped address not found in STUN response"\<close>
  | NetError                      \<comment> \<open>an error of package \<open>net\<close> (resolve, dial, write, read)\<close>
  | MarshalError                  \<comment> \<open>an error of \<open>json.Marshal\<close>\<close>

text \<open>
  A Go call either panics (index or slice bounds out of range), never returns because it
  waits for a mutex that is not released, returns a non-nil error, or returns its value.
\<close>

datatype 'a result = Panic | Blocks | Err error | Ok 'a

definition rbind :: "'a result \<Rightarrow> ('a \<Rightarrow> 'b result) \<Rightarrow> 'b result" where
  "rbind r f = (case r of Panic \<Rightarrow> Panic | Blocks \<Rightarrow> Blocks | Err e \<Rightarrow> Err e | Ok x \<Rightarrow> f x)"

section \<open>Codec: AES-CBC with PKCS7 padding (supernode.go)\<close>

text \<open>
  The block cipher is the standard library's (\<open>crypto/aes\<close>); it is a parameter of the
  model: \<open>Encrypt k b\<close> and \<open>Decrypt k b\<close> are the images of the block \<open>b\<close> under the
  key \<open>k\<close>. \<open>aes.BlockSize\<close> is 16.
\<close>

record block_cipher =
  Encrypt :: "byte list \<Rightarrow> byte list \<Rightarrow> byte list"
  Decrypt :: "byte list \<Rightarrow> byte list \<Rightarrow> byte list"

definition BlockSize :: nat where
  "BlockSize = 16"

text \<open>What \<open>crypto/aes\<close> guarantees of a cipher made from the key \<open>k\<close>: blocks go to
  blocks, and decryption undoes encryption.\<close>

definition cipher_ok :: "block_cipher \<Rightarrow> byte list \<Rightarrow> bool" where
  "cipher_ok C k \<longleftrightarrow>
     (\<forall>b. length b = BlockSize \<longrightarrow>
        length (Encrypt C k b) = BlockSize \<and> length (Decrypt C k b) = BlockSize \<and>
        Decrypt C k (Encrypt C k b) = b)"

text \<open>\<open>aes.NewCipher\<close> accepts keys of 16, 24 and 32 bytes only.\<close>

definition NewCipher :: "byte list \<Rightarrow> error option" where
  "NewCipher key =
     (if length key = 16 \<or> length key = 24 \<or> length key = 32 then None
      else Some (KeySizeError (length key)))"

definition xorBytes :: "byte list \<Rightarrow> byte list \<Rightarrow> byte list" where
  "xorBytes a b = map (\<lambda>(x, y). x XOR y) (zip a b)"

text \<open>
  \<open>cipher.NewCBCEncrypter(block, iv).CryptBlocks(dst, src)\<close> of the standard library: it
  panics when \<open>src\<close> is not a whole number of blocks; otherwise every block is XORed with
  the previous ciphertext block (the IV for the first) and encrypted. The first argument
  of \<open>cbcEncryptBlocks\<close> counts the blocks that are left.
\<close>

fun cbcEncryptBlocks :: "block_cipher \<Rightarrow> byte list \<Rightarrow> nat \<Rightarrow> byte list \<Rightarrow> byte list \<Rightarrow> byte list" where
  "cbcEncryptBlocks C k 0 iv src = []"
| "cbcEncryptBlocks C k (Suc n) iv src =
     (let c = Encrypt C k (xorBytes (take BlockSize src) iv)
      in c @ cbcEncryptBlocks C k n c (drop BlockSize src))"

fun cbcDecryptBlocks :: "block_cipher \<Rightarrow> byte list \<Rightarrow> nat \<Rightarrow> byte list \<Rightarrow> byte list \<Rightarrow> byte list" where
  "cbcDecryptBlocks C k 0 iv src = []"
| "cbcDecryptBlocks C k (Suc n) iv src =
     (let c = take BlockSize src
      in xorBytes (Decrypt C k c) iv @ cbcDecryptBlocks C k n c (drop BlockSize src))"

definition CBCEncrypt :: "block_cipher \<Rightarrow> byte list \<Rightarrow> byte list \<Rightarrow> byte list \<Rightarrow> byte list result" where
  "CBCEncrypt C k iv src =
     (if length src mod BlockSize \<noteq> 0 then Panic
      else Ok (cbcEncryptBlocks C k (length src div BlockSize) iv src))"

definition CBCDecrypt :: "block_cipher \<Rightarrow> byte list \<Rightarrow> byte list \<Rightarrow> byte list \<Rightarrow> byte list result" where
  "CBCDecrypt C k iv src =
     (if length src mod BlockSize \<noteq> 0 then Panic
      else Ok (cbcDecryptBlocks C k (length src div BlockSize) iv src))"

text \<open>
  \<open>pkcs7Pad\<close>: \<open>padding := blockSize - len(data)%blockSize\<close>, then \<open>padding\<close> bytes of
  value \<open>byte(padding)\<close> are appended.
\<close>

definition pkcs7Pad :: "byte list \<Rightarrow> nat \<Rightarrow> byte list" where
  "pkcs7Pad data blockSize =
     (let padding = blockSize - length data mod blockSize
      in data @ replicate padding (of_nat padding))"

text \<open>
  \<open>pkcs7Unpad\<close>. The validation loop runs \<open>i\<close> from \<open>len(data) - padding\<close> to
  \<open>len(data) - 1\<close>; when \<open>padding\<close> exceeds \<open>len(data)\<close> its first index is negative and
  \<open>data[i]\<close> panics.
\<close>

definition pkcs7Unpad :: "byte list \<Rightarrow> nat \<Rightarrow> byte list result" where
  "pkcs7Unpad data blockSize =
     (if length data = 0 then Err DataEmpty
      else
        let padding = unat (data ! (length data - 1)) in
        if padding > blockSize \<or> padding = 0 then Err InvalidPadding
        else if padding > length data then Panic
        else if \<not> list_all (\<lambda>i. data ! i = of_nat padding)
                     [length data - padding ..< length data]
        then Err InvalidPadding
        else Ok (take (length data - padding) data))"

text \<open>
  \<open>encryptAES(key, data)\<close>. The bytes read from \<open>rand.Reader\<close> are the argument \<open>rnd\<close>:
  \<open>None\<close> when the read fails, otherwise the 16 bytes of the IV.
\<close>

definition encryptAES :: "block_cipher \<Rightarrow> byte list option \<Rightarrow> byte list \<Rightarrow> byte list \<Rightarrow> byte list result" where
  "encryptAES C rnd key data =
     (case NewCipher key of
        Some e \<Rightarrow> Err e
      | None \<Rightarrow>
         (case rnd of
            None \<Rightarrow> Err RandError
          | Some iv \<Rightarrow>
             rbind (CBCEncrypt C key iv (pkcs7Pad data BlockSize)) (\<lambda>ciphertext.
             Ok (iv @ ciphertext))))"

text \<open>\<open>decryptAES(key, data)\<close>.\<close>

definition decryptAES :: "block_cipher \<Rightarrow> byte list \<Rightarrow> byte list \<Rightarrow> byte list result" where
  "decryptAES C key data =
     (case NewCipher key of
        Some e \<Rightarrow> Err e
      | None \<Rightarrow>
         if length data < BlockSize then Err CiphertextTooShort
         else
           let iv = take BlockSize data;
               ciphertext = drop BlockSize data
           in if length ciphertext mod BlockSize \<noteq> 0 then Err NotBlockMultiple
              else
                rbind (CBCDecrypt C key iv ciphertext) (\<lambda>plaintext.
                pkcs7Unpad plaintext BlockSize))"

text \<open>A toy block cipher (XOR with the key) that meets \<open>cipher_ok\<close>; it instantiates
  the theorems below at concrete inputs.\<close>

definition xorCipher :: block_cipher where
  "xorCipher = \<lparr>Encrypt = (\<lambda>k b. xorBytes b k), Decrypt = (\<lambda>k b. xorBytes b k)\<rparr>"

section \<open>NAT resolver: the STUN client (stun.go)\<close>

subsection \<open>Go slices\<close>

text \<open>
  A Go byte slice is a window on a backing array: it has a length and a capacity. It is
  modelled as the backing array from the slice's first byte to the end of its capacity,
  together with the length. Indexing \<open>s[i]\<close> panics unless \<open>i < len(s)\<close>; a slice
  expression \<open>s[lo:hi]\<close> panics unless \<open>lo \<le> hi \<le> cap(s)\<close>: its upper bound is checked
  against the capacity, not the length.
\<close>

type_synonym gslice = "byte list \<times> nat"

definition slen :: "gslice \<Rightarrow> nat" where
  "slen s = snd s"

definition scap :: "gslice \<Rightarrow> nat" where
  "scap s = length (fst s)"

definition index :: "gslice \<Rightarrow> nat \<Rightarrow> byte result" where
  "index s i = (if i < slen s then Ok (fst s ! i) else Panic)"

definition reslice :: "gslice \<Rightarrow> nat \<Rightarrow> nat \<Rightarrow> gslice result" where
  "reslice s lo hi = (if lo \<le> hi \<and> hi \<le> scap s then Ok (drop lo (fst s), hi - lo) else Panic)"

subsection \<open>Constants and conversions\<close>

definition STUNBindingResponse :: "16 word" where
  "STUNBindingResponse = 0x0101"

definition STUNHeaderLength :: nat where
  "STUNHeaderLength = 20"

definition STUNMAGIC_COOKIE :: "32 word" where
  "STUNMAGIC_COOKIE = 0x2112A442"

text \<open>\<open>bytesToUint16(b)\<close> is \<open>uint16(b[0])<<8 | uint16(b[1])\<close>.\<close>

definition bytesToUint16 :: "gslice \<Rightarrow> 16 word result" where
  "bytesToUint16 b =
     rbind (index b 0) (\<lambda>b0.
     rbind (index b 1) (\<lambda>b1.
     Ok (push_bit 8 (ucast b0) OR ucast b1)))"

definition uint32ToBytes :: "32 word \<Rightarrow> byte list" where
  "uint32ToBytes n = [ucast (drop_bit 24 n), ucast (drop_bit 16 n), ucast (drop_bit 8 n), ucast n]"

text \<open>Decimal output, as \<open>%d\<close> of \<open>fmt.Sprintf\<close> and \<open>net.IP.String\<close> print numbers.\<close>

definition digit :: "nat \<Rightarrow> char" where
  "digit d = ''0123456789'' ! d"

function showNat :: "nat \<Rightarrow> string" where
  "showNat n = (if n < 10 then [digit n] else showNat (n div 10) @ [digit (n mod 10)])"
  by pat_completeness auto
termination
  by (relation "measure id") auto

declare showNat.simps [simp del]

definition Itoa :: "int \<Rightarrow> string" where
  "Itoa i = (if i < 0 then CHR ''-'' # showNat (nat (- i)) else showNat (nat i))"

text \<open>\<open>net.IP(ipBytes).String()\<close> for the four bytes of an IPv4 address: dotted decimal.\<close>

definition IPString :: "byte list \<Rightarrow> string" where
  "IPString ip =
     showNat (unat (ip ! 0)) @ ''.'' @ showNat (unat (ip ! 1)) @ ''.'' @
     showNat (unat (ip ! 2)) @ ''.'' @ showNat (unat (ip ! 3))"

subsection \<open>\<open>parseSTUNResponse\<close>\<close>

text \<open>The loop \<open>ipBytes[i] = xorIP[i] ^ cookieBytes[i]\<close> over \<open>i = 0, ..., 3\<close>.\<close>

fun xorIPBytes :: "gslice \<Rightarrow> byte list \<Rightarrow> nat list \<Rightarrow> byte list result" where
  "xorIPBytes xorIP cookieBytes [] = Ok []"
| "xorIPBytes xorIP cookieBytes (i # is) =
     rbind (index xorIP i) (\<lambda>x.
     rbind (xorIPBytes xorIP cookieBytes is) (\<lambda>rest.
     Ok ((x XOR cookieBytes ! i) # rest)))"

text \<open>
  The body of \<open>if attrType == 0x0020\<close>: the pair \<open>(ip, port)\<close> is updated when the
  attribute is an IPv4 XOR-MAPPED-ADDRESS. The guard is \<open>len(attrValue) >= 4\<close>, and the
  address is then read from \<open>attrValue[4:8]\<close>.
\<close>

definition xorMappedAddress :: "16 word \<Rightarrow> gslice \<Rightarrow> string \<times> int \<Rightarrow> (string \<times> int) result" where
  "xorMappedAddress attrType attrValue acc =
     (if attrType = 0x0020 then
        if slen attrValue \<ge> 4 then
          rbind (index attrValue 1) (\<lambda>addrFamily.
          if addrFamily = 0x01 then
            rbind (reslice attrValue 2 4) (\<lambda>s.
            rbind (bytesToUint16 s) (\<lambda>xorPort.
            let port = uint (xorPort XOR ucast (drop_bit 16 STUNMAGIC_COOKIE)) in
            rbind (reslice attrValue 4 8) (\<lambda>xorIP.
            rbind (xorIPBytes xorIP (uint32ToBytes STUNMAGIC_COOKIE) [0..<4]) (\<lambda>ipBytes.
            Ok (IPString ipBytes, port)))))
          else Ok acc)
        else Ok acc
      else Ok acc)"

text \<open>
  The attribute loop \<open>for attrsStart < attrsEnd\<close>; \<open>acc\<close> is the pair \<open>(ip, port)\<close> found so
  far. Both \<open>break\<close>s leave the loop with the pair unchanged.
\<close>

function parseAttrs :: "gslice \<Rightarrow> nat \<Rightarrow> nat \<Rightarrow> string \<times> int \<Rightarrow> (string \<times> int) result" where
  "parseAttrs data attrsEnd attrsStart acc =
     (if attrsStart < attrsEnd then
        if attrsStart + 4 > attrsEnd then Ok acc
        else
          rbind (reslice data attrsStart (attrsStart + 2)) (\<lambda>s1.
          rbind (bytesToUint16 s1) (\<lambda>attrType.
          rbind (reslice data (attrsStart + 2) (attrsStart + 4)) (\<lambda>s2.
          rbind (bytesToUint16 s2) (\<lambda>l.
          let attrLength = unat l; valueStart = attrsStart + 4 in
          if valueStart + attrLength > attrsEnd then Ok acc
          else
            rbind (reslice data valueStart (valueStart + attrLength)) (\<lambda>attrValue.
            rbind (xorMappedAddress attrType attrValue acc) (\<lambda>acc'.
            parseAttrs data attrsEnd
              (valueStart + attrLength + (if attrLength mod 4 \<noteq> 0 then 4 - attrLength mod 4 else 0))
              acc'))))))
      else Ok acc)"
  by pat_completeness auto
termination
  by (relation "measure (\<lambda>(data, attrsEnd, attrsStart, acc). attrsEnd - attrsStart)") auto

declare parseAttrs.simps [simp del]

definition parseSTUNResponse :: "gslice \<Rightarrow> (string \<times> int) result" where
  "parseSTUNResponse data =
     (if slen data < STUNHeaderLength then Err ResponseTooShort
      else
        rbind (reslice data 0 2) (\<lambda>s1.
        rbind (bytesToUint16 s1) (\<lambda>msgType.
        if msgType \<noteq> STUNBindingResponse then Err InvalidResponseType
        else
          rbind (reslice data 2 4) (\<lambda>s2.
          rbind (bytesToUint16 s2) (\<lambda>l.
          let msgLength = unat l in
          if slen data < STUNHeaderLength + msgLength then Err ResponseIncomplete
          else
            rbind (parseAttrs data (STUNHeaderLength + msgLength) STUNHeaderLength ([], 0)) (\<lambda>(ip, port).
            if ip = [] then Err MappedAddressNotFound else Ok (ip, port)))))))"

subsection \<open>\<open>sendSTUNRequest\<close> and \<open>getPublicIPAndPort\<close>\<close>

text \<open>
  What the network does for one server: the name does not resolve, the socket cannot be
  opened, the transaction id cannot be drawn, the write or the read fails (the 5 second
  deadline included), or a datagram arrives. The request that is sent has no influence
  on the model's answer and is left out.
\<close>

datatype stun_attempt =
  ResolveFails | DialFails | RandFails | WriteFails | ReadFails | Datagram "byte list"

text \<open>
  \<open>response := make([]byte, 1024); n, err := conn.Read(response)\<close> puts the first
  \<open>n \<le> 1024\<close> bytes of the datagram into a zeroed buffer, and
  \<open>parseSTUNResponse(response[:n])\<close> gets a slice of length \<open>n\<close> and capacity 1024.
\<close>

definition sendSTUNRequest :: "(string \<Rightarrow> stun_attempt) \<Rightarrow> string \<Rightarrow> (string \<times> int) result" where
  "sendSTUNRequest net serverAddr =
     (case net serverAddr of
        ResolveFails \<Rightarrow> Err NetError
      | DialFails \<Rightarrow> Err NetError
      | RandFails \<Rightarrow> Err RandError
      | WriteFails \<Rightarrow> Err NetError
      | ReadFails \<Rightarrow> Err NetError
      | Datagram d \<Rightarrow>
          (let n = min (length d) 1024;
               response = take n d @ replicate (1024 - n) 0
           in rbind (reslice (response, 1024) 0 n) parseSTUNResponse))"

definition stunServers :: "string list" where
  "stunServers =
     [''stun.l.google.com:19302'', ''stun1.l.google.com:19302'', ''stun2.l.google.com:19302'',
      ''stun3.l.google.com:19302'', ''stun4.l.google.com:19302'', ''stun.qq.com:19302'',
      ''stun.miwifi.com:19302'', ''stun.msn.com:19302'', ''stun.hot-chilli.net:19302'',
      ''stun.ekiga.net:3478'', ''stun.ideasip.com:3478'', ''stun.rixtelecom.se:3478'',
      ''stun.schlund.de:3478'', ''stun.stunprotocol.org:3478'', ''stun.voiparound.com:3478'',
      ''stun.voipbuster.com:3478'', ''stun.voipstunt.com:3478'', ''stun.voxgratia.org:3478'',
      ''stun.xten.com:3478'']"

text \<open>\<open>getLocalIP\<close> (network.go): the local address of a UDP socket towards 8.8.8.8, or
  127.0.0.1 when it cannot be opened. The argument is that address, when there is one.\<close>

definition getLocalIP :: "string option \<Rightarrow> string" where
  "getLocalIP outbound = (case outbound of None \<Rightarrow> ''127.0.0.1'' | Some ip \<Rightarrow> ip)"

record netenv =
  stun :: "string \<Rightarrow> stun_attempt"
  outboundIP :: "string option"

text \<open>The loop over the servers: the first answer without error is returned.\<close>

fun tryServers :: "(string \<Rightarrow> stun_attempt) \<Rightarrow> string list \<Rightarrow> (string \<times> int) option result" where
  "tryServers net [] = Ok None"
| "tryServers net (server # rest) =
     (case sendSTUNRequest net server of
        Ok (ip, port) \<Rightarrow> Ok (Some (ip, port))
      | Err e \<Rightarrow> tryServers net rest
      | Panic \<Rightarrow> Panic
      | Blocks \<Rightarrow> Blocks)"

text \<open>
  \<open>getPublicIPAndPort\<close> returns \<open>(ip, port, nil)\<close> in both of its \<open>return\<close> statements: \<open>Ok\<close>
  is a return with a nil error, \<open>Err\<close> would be one with a non-nil error. The fallback
  port is \<open>AppConfig.TCPPort\<close>, the argument \<open>tcpPort\<close>.
\<close>

definition getPublicIPAndPort :: "int \<Rightarrow> netenv \<Rightarrow> (string \<times> int) result" where
  "getPublicIPAndPort tcpPort env =
     rbind (tryServers (stun env) stunServers) (\<lambda>r.
       case r of
         Some (ip, port) \<Rightarrow> Ok (ip, port)
       | None \<Rightarrow> Ok (getLocalIP (outboundIP env), tcpPort))"

subsection \<open>Two binding responses\<close>

text \<open>
  A binding-success header (type 0x0101, the magic cookie, a zero transaction id) that
  announces \<open>l\<close> bytes of attributes.
\<close>

definition stunHeader :: "nat \<Rightarrow> byte list" where
  "stunHeader l =
     [0x01, 0x01, of_nat (l div 256), of_nat (l mod 256), 0x21, 0x12, 0xA4, 0x42] @ replicate 12 0"

text \<open>
  A 28-byte response whose only attribute is an XOR-MAPPED-ADDRESS of length 4: it holds
  the reserved byte, the family (IPv4) and the port, and stops before the address.
\<close>

definition truncatedResponse :: "byte list" where
  "truncatedResponse = stunHeader 8 @ [0x00, 0x20, 0x00, 0x04, 0x00, 0x01, 0x21, 0x13]"

text \<open>
  A 1024-byte response: an attribute of type 0 with 992 bytes of value, then the same
  truncated XOR-MAPPED-ADDRESS in the last 8 bytes of the datagram.
\<close>

definition fullBufferResponse :: "byte list" where
  "fullBufferResponse =
     stunHeader 1004 @ [0x00, 0x00, 0x03, 0xE0] @ replicate 992 0 @
     [0x00, 0x20, 0x00, 0x04, 0x00, 0x01, 0x21, 0x13]"

section \<open>Data model (supernode.go and the session file)\<close>

record Message =
  RoomID :: string
  Sender :: string
  Timestamp :: string
  Content :: string

record NodeInfo =
  ID :: string
  Address :: string
  Nickname :: string
  NoSuperNode :: bool

text \<open>\<open>SuperNodeInfo\<close> embeds \<open>NodeInfo\<close>; times are nanoseconds since the epoch.\<close>

record SuperNodeInfo = NodeInfo +
  IsSuperNode :: bool
  LastActive :: nat

record RoomInfo =
  RoomInfo_ID :: string
  Nodes :: "NodeInfo list"
  Password :: string

text \<open>
  The fields of \<open>AppConfig\<close> that the modelled functions read. The session file reads
  \<open>AppConfig.NoSuperNode\<close>; the \<open>Config\<close> struct in main.go does not declare that
  field, so it is taken as one more field of the configuration.
\<close>

record Config =
  TCPPort :: int
  UDPPort :: int
  MaxNodes :: int
  Config_NoSuperNode :: bool

text \<open>
  The manager's \<open>sync.RWMutex\<close>. Go's mutexes are not reentrant: \<open>Lock\<close> waits until
  the mutex is free and \<open>RLock\<close> waits while a writer holds it, also when the holder is
  the calling goroutine itself, which then waits forever. Calls into the manager are
  taken one at a time. Every read-locked section of the source releases the lock before
  it returns (\<open>defer RUnlock\<close>), and so does every write-locked one (\<open>defer Unlock\<close>): between
  calls the mutex is free, unless an earlier call is still waiting inside the manager
  with the write lock, and such a call waits forever.
\<close>

datatype RWMutex = Unlocked | WLocked

record SuperNodeManager =
  mu :: RWMutex
  supernodes :: "SuperNodeInfo list"
  localNodeInfo :: NodeInfo
  messageKey :: "byte list"
  tcpPort :: int
  udpPort :: int
  isSuperNode :: bool
  noSuperNode :: bool
  superNodeMode :: bool

record P2PChat =
  LocalNode :: NodeInfo
  Room :: RoomInfo
  MessageKey :: "byte list"
  Running :: bool
  PublicIP :: string
  PublicPort :: int
  SuperNodeMgr :: SuperNodeManager

text \<open>
  The standard library functions the session and the transport call, as parameters:
  the AES block cipher, base64 (\<open>StdEncoding\<close>) and the JSON codec of \<open>Message\<close>.
\<close>

record stdlib =
  aes :: block_cipher
  base64Encode :: "byte list \<Rightarrow> string"
  base64Decode :: "string \<Rightarrow> byte list option"
  jsonMarshal :: "Message \<Rightarrow> byte list option"
  jsonUnmarshal :: "byte list \<Rightarrow> Message option"

section \<open>Topology manager (supernode.go)\<close>

definition Lock :: "SuperNodeManager \<Rightarrow> SuperNodeManager result" where
  "Lock sm = (if mu sm = Unlocked then Ok (sm\<lparr>mu := WLocked\<rparr>) else Blocks)"

definition Unlock :: "SuperNodeManager \<Rightarrow> SuperNodeManager" where
  "Unlock sm = sm\<lparr>mu := Unlocked\<rparr>"

text \<open>\<open>RLock(); defer RUnlock()\<close>: the section runs unless a writer holds the mutex, and
  leaves the mutex as it found it.\<close>

definition RLock :: "SuperNodeManager \<Rightarrow> unit result" where
  "RLock sm = (if mu sm = WLocked then Blocks else Ok ())"

definition NewSuperNodeManager :: "NodeInfo \<Rightarrow> byte list \<Rightarrow> int \<Rightarrow> int \<Rightarrow> bool \<Rightarrow> SuperNodeManager" where
  "NewSuperNodeManager localNode key tcp udp noSN =
     \<lparr>mu = Unlocked, supernodes = [], localNodeInfo = localNode, messageKey = key,
      tcpPort = tcp, udpPort = udp, isSuperNode = False, noSuperNode = noSN,
      superNodeMode = True\<rparr>"

definition ShouldEnableSuperNodeMode :: "SuperNodeManager \<Rightarrow> nat \<Rightarrow> bool" where
  "ShouldEnableSuperNodeMode sm nodeCount \<longleftrightarrow> superNodeMode sm \<and> nodeCount > 5"

definition SetSuperNodeMode :: "SuperNodeManager \<Rightarrow> bool \<Rightarrow> SuperNodeManager" where
  "SetSuperNodeMode sm enabled = sm\<lparr>superNodeMode := enabled\<rparr>"

definition IsLocalNodeSuperNode :: "SuperNodeManager \<Rightarrow> bool result" where
  "IsLocalNodeSuperNode sm = rbind (RLock sm) (\<lambda>_. Ok (isSuperNode sm))"

definition SetLocalNodeAsSuperNode :: "SuperNodeManager \<Rightarrow> bool \<Rightarrow> SuperNodeManager result" where
  "SetLocalNodeAsSuperNode sm b = rbind (Lock sm) (\<lambda>sm. Ok (Unlock (sm\<lparr>isSuperNode := b\<rparr>)))"

text \<open>The index of the first element that satisfies \<open>P\<close>: the loops
  \<open>for i, sn := range sm.supernodes { if sn.ID == nodeID { ...; return } }\<close>.\<close>

fun findIndex :: "('a \<Rightarrow> bool) \<Rightarrow> 'a list \<Rightarrow> nat option" where
  "findIndex P [] = None"
| "findIndex P (x # xs) = (if P x then Some 0 else map_option Suc (findIndex P xs))"

text \<open>\<open>time.Since(sn.LastActive) < 30 * time.Second\<close>, with \<open>now\<close> the time of the call.\<close>

definition active :: "nat \<Rightarrow> SuperNodeInfo \<Rightarrow> bool" where
  "active now sn \<longleftrightarrow> int now - int (LastActive sn) < 30000000000"

definition AddNode :: "nat \<Rightarrow> SuperNodeManager \<Rightarrow> NodeInfo \<Rightarrow> SuperNodeManager result" where
  "AddNode now sm nodeInfo =
     rbind (Lock sm) (\<lambda>sm.
       case findIndex (\<lambda>sn. ID sn = ID nodeInfo) (supernodes sm) of
         Some i \<Rightarrow>
           Ok (Unlock (sm\<lparr>supernodes := (supernodes sm)
                 [i := (supernodes sm ! i)\<lparr>Address := Address nodeInfo,
                        Nickname := Nickname nodeInfo, NoSuperNode := NoSuperNode nodeInfo,
                        LastActive := now\<rparr>]\<rparr>))
       | None \<Rightarrow>
           Ok (Unlock (sm\<lparr>supernodes := supernodes sm @
                 [\<lparr>ID = ID nodeInfo, Address = Address nodeInfo, Nickname = Nickname nodeInfo,
                   NoSuperNode = NoSuperNode nodeInfo, IsSuperNode = False,
                   LastActive = now\<rparr>]\<rparr>)))"

definition SetAsSuperNode :: "nat \<Rightarrow> SuperNodeManager \<Rightarrow> string \<Rightarrow> SuperNodeManager result" where
  "SetAsSuperNode now sm nodeID =
     rbind (Lock sm) (\<lambda>sm.
       case findIndex (\<lambda>sn. ID sn = nodeID) (supernodes sm) of
         Some i \<Rightarrow>
           Ok (Unlock (sm\<lparr>supernodes := (supernodes sm)
                 [i := (supernodes sm ! i)\<lparr>IsSuperNode := True, LastActive := now\<rparr>]\<rparr>))
       | None \<Rightarrow> Ok (Unlock sm))"

definition GetSuperNodes :: "nat \<Rightarrow> SuperNodeManager \<Rightarrow> SuperNodeInfo list result" where
  "GetSuperNodes now sm =
     rbind (RLock sm) (\<lambda>_.
       Ok (filter (\<lambda>sn. active now sn \<and> IsSuperNode sn) (supernodes sm)))"

definition GetNode :: "SuperNodeManager \<Rightarrow> string \<Rightarrow> SuperNodeInfo option result" where
  "GetNode sm nodeID =
     rbind (RLock sm) (\<lambda>_. Ok (find (\<lambda>sn. ID sn = nodeID) (supernodes sm)))"

definition RemoveNode :: "SuperNodeManager \<Rightarrow> string \<Rightarrow> SuperNodeManager result" where
  "RemoveNode sm nodeID =
     rbind (Lock sm) (\<lambda>sm.
       case findIndex (\<lambda>sn. ID sn = nodeID) (supernodes sm) of
         Some i \<Rightarrow>
           Ok (Unlock (sm\<lparr>supernodes := take i (supernodes sm) @ drop (i + 1) (supernodes sm)\<rparr>))
       | None \<Rightarrow> Ok (Unlock sm))"

definition UpdateNodeActivity :: "nat \<Rightarrow> SuperNodeManager \<Rightarrow> string \<Rightarrow> SuperNodeManager result" where
  "UpdateNodeActivity now sm nodeID =
     rbind (Lock sm) (\<lambda>sm.
       case findIndex (\<lambda>sn. ID sn = nodeID) (supernodes sm) of
         Some i \<Rightarrow>
           Ok (Unlock (sm\<lparr>supernodes := (supernodes sm)
                 [i := (supernodes sm ! i)\<lparr>LastActive := now\<rparr>]\<rparr>))
       | None \<Rightarrow> Ok (Unlock sm))"

definition checkIfNodeIsNoSuperNode :: "SuperNodeManager \<Rightarrow> string \<Rightarrow> bool result" where
  "checkIfNodeIsNoSuperNode sm nodeID =
     rbind (GetNode sm nodeID) (\<lambda>nodeInfo.
       Ok (case nodeInfo of Some n \<Rightarrow> NoSuperNode n | None \<Rightarrow> False))"

text \<open>The candidate loop of \<open>SelectInitialSuperNode\<close>; \<open>count\<close> is its counter.\<close>

fun collectCandidates :: "SuperNodeManager \<Rightarrow> SuperNodeInfo list \<Rightarrow> nat \<Rightarrow> SuperNodeInfo list result" where
  "collectCandidates sm [] count = Ok []"
| "collectCandidates sm (sn # rest) count =
     (if count \<ge> 5 then Ok []
      else if ID sn \<noteq> Address (localNodeInfo sm) then
        rbind (checkIfNodeIsNoSuperNode sm (ID sn)) (\<lambda>nodeIsNoSuperNode.
          if \<not> nodeIsNoSuperNode then
            rbind (collectCandidates sm rest (count + 1)) (\<lambda>candidates. Ok (sn # candidates))
          else collectCandidates sm rest count)
      else collectCandidates sm rest count)"

text \<open>
  \<open>SelectInitialSuperNode\<close> returns the selected id and leaves the manager updated.
  \<open>time.Now().Unix()\<close> is \<open>now div 10^9\<close>.
\<close>

definition SelectInitialSuperNode :: "nat \<Rightarrow> SuperNodeManager \<Rightarrow> (string \<times> SuperNodeManager) result" where
  "SelectInitialSuperNode now sm =
     rbind (Lock sm) (\<lambda>sm.
     rbind (collectCandidates sm (supernodes sm) 0) (\<lambda>candidates.
       if length candidates = 0 then Ok ([], Unlock sm)
       else
         let index = (now div 1000000000) mod length candidates;
             selectedID = ID (candidates ! index)
         in case findIndex (\<lambda>sn. ID sn = selectedID) (supernodes sm) of
              Some i \<Rightarrow>
                Ok (selectedID,
                    Unlock (sm\<lparr>supernodes := (supernodes sm)
                               [i := (supernodes sm ! i)\<lparr>IsSuperNode := True, LastActive := now\<rparr>],
                             isSuperNode := (if selectedID = Address (localNodeInfo sm) then True
                                             else isSuperNode sm)\<rparr>))
            | None \<Rightarrow> Ok (selectedID, Unlock sm)))"

text \<open>The loop of \<open>selectNewSuperNode\<close>, at index \<open>i\<close> with the entries \<open>sns\<close> still to
  visit: \<open>Some\<close> of the manager when an entry was promoted (the function returns there),
  \<open>None\<close> when the loop ran to its end.\<close>

fun selectLoop :: "nat \<Rightarrow> SuperNodeManager \<Rightarrow> nat \<Rightarrow> SuperNodeInfo list \<Rightarrow> SuperNodeManager option result" where
  "selectLoop now sm i [] = Ok None"
| "selectLoop now sm i (sn # rest) =
     (if \<not> IsSuperNode sn \<and> active now sn \<and> ID sn \<noteq> Address (localNodeInfo sm) then
        rbind (checkIfNodeIsNoSuperNode sm (ID sn)) (\<lambda>nodeIsNoSuperNode.
          if \<not> nodeIsNoSuperNode then
            Ok (Some (sm\<lparr>supernodes := (supernodes sm)
                       [i := (supernodes sm ! i)\<lparr>IsSuperNode := True, LastActive := now\<rparr>]\<rparr>))
          else selectLoop now sm (i + 1) rest)
      else selectLoop now sm (i + 1) rest)"

definition selectNewSuperNode :: "nat \<Rightarrow> SuperNodeManager \<Rightarrow> SuperNodeManager result" where
  "selectNewSuperNode now sm =
     rbind (selectLoop now sm 0 (supernodes sm)) (\<lambda>r.
       case r of
         Some sm' \<Rightarrow> Ok sm'
       | None \<Rightarrow>
           Ok (if \<not> noSuperNode sm \<and> \<not> isSuperNode sm then sm\<lparr>isSuperNode := True\<rparr> else sm))"

definition handleSuperNodeLeave :: "nat \<Rightarrow> SuperNodeManager \<Rightarrow> SuperNodeManager result" where
  "handleSuperNodeLeave now sm =
     (let activeSuperNodes = length (filter (\<lambda>sn. IsSuperNode sn \<and> active now sn) (supernodes sm))
      in if activeSuperNodes \<le> 1 then selectNewSuperNode now sm else Ok sm)"

definition HandleNodeLeave :: "nat \<Rightarrow> SuperNodeManager \<Rightarrow> string \<Rightarrow> SuperNodeManager result" where
  "HandleNodeLeave now sm nodeID =
     rbind (Lock sm) (\<lambda>sm.
       case findIndex (\<lambda>sn. ID sn = nodeID) (supernodes sm) of
         Some i \<Rightarrow>
           rbind (if IsSuperNode (supernodes sm ! i) then handleSuperNodeLeave now sm else Ok sm)
             (\<lambda>sm. Ok (Unlock (sm\<lparr>supernodes :=
                                 take i (supernodes sm) @ drop (i + 1) (supernodes sm)\<rparr>)))
       | None \<Rightarrow> Ok (Unlock sm))"

text \<open>\<open>ForwardMessageToSuperNodes\<close> starts one goroutine per live Relay other than the
  local address; the result lists the addresses they dial. It returns a nil error.\<close>

definition ForwardMessageToSuperNodes :: "nat \<Rightarrow> SuperNodeManager \<Rightarrow> string list result" where
  "ForwardMessageToSuperNodes now sm =
     rbind (GetSuperNodes now sm) (\<lambda>superNodes.
       Ok (map Address (filter (\<lambda>sn. Address sn \<noteq> Address (localNodeInfo sm)) superNodes)))"

definition GetBestSuperNodeForConnection :: "nat \<Rightarrow> SuperNodeManager \<Rightarrow> SuperNodeInfo option result" where
  "GetBestSuperNodeForConnection now sm =
     rbind (GetSuperNodes now sm) (\<lambda>superNodes.
       Ok (if length superNodes = 0 then None else Some (superNodes ! 0)))"

section \<open>Session (\<open>NewP2PChat\<close>, \<open>CreateRoom\<close>, \<open>JoinRoom\<close>)\<close>

text \<open>
  \<open>NewP2PChat\<close>. The nickname that \<open>generateRandomNickname\<close> draws is the argument
  \<open>nickname\<close>. The \<open>err != nil\<close> branch after \<open>getPublicIPAndPort\<close> is the \<open>Err\<close> case.
\<close>

definition newClient :: "Config \<Rightarrow> string \<Rightarrow> string \<Rightarrow> int \<Rightarrow> P2PChat" where
  "newClient cfg nickname publicIP publicPort =
     (let localNode = \<lparr>ID = [], Address = publicIP @ '':'' @ Itoa publicPort,
                        Nickname = nickname, NoSuperNode = Config_NoSuperNode cfg\<rparr>
      in \<lparr>LocalNode = localNode,
          Room = \<lparr>RoomInfo_ID = [], Nodes = [], Password = []\<rparr>,
          MessageKey = [], Running = False,
          PublicIP = publicIP, PublicPort = publicPort,
          SuperNodeMgr = NewSuperNodeManager localNode [] (TCPPort cfg) (UDPPort cfg)
                           (Config_NoSuperNode cfg)\<rparr>)"

definition NewP2PChat :: "Config \<Rightarrow> string \<Rightarrow> netenv \<Rightarrow> P2PChat result" where
  "NewP2PChat cfg nickname env =
     (case getPublicIPAndPort (TCPPort cfg) env of
        Ok (publicIP, publicPort) \<Rightarrow> Ok (newClient cfg nickname publicIP publicPort)
      | Err e \<Rightarrow> Ok (newClient cfg nickname (getLocalIP (outboundIP env)) (TCPPort cfg))
      | Panic \<Rightarrow> Panic
      | Blocks \<Rightarrow> Blocks)"

text \<open>\<open>CreateRoom\<close>; \<open>rnd\<close> is what \<open>io.ReadFull(rand.Reader, key)\<close> reads into the 16-byte
  key, \<open>None\<close> when it fails.\<close>

definition CreateRoom :: "Config \<Rightarrow> stdlib \<Rightarrow> byte list option \<Rightarrow> P2PChat \<Rightarrow> string \<Rightarrow> P2PChat result" where
  "CreateRoom cfg L rnd p roomID =
     (case rnd of
        None \<Rightarrow> Err RandError
      | Some key \<Rightarrow>
          (let localNode = \<lparr>ID = Address (LocalNode p), Address = Address (LocalNode p),
                             Nickname = Nickname (LocalNode p),
                             NoSuperNode = Config_NoSuperNode cfg\<rparr>
           in Ok (p\<lparr>MessageKey := key,
                    Room := (Room p)\<lparr>RoomInfo_ID := roomID,
                                      Password := base64Encode L key,
                                      Nodes := Nodes (Room p) @ [localNode]\<rparr>,
                    SuperNodeMgr := NewSuperNodeManager (LocalNode p) key (TCPPort cfg)
                                      (UDPPort cfg) (Config_NoSuperNode cfg)\<rparr>)))"

definition JoinRoom :: "Config \<Rightarrow> stdlib \<Rightarrow> P2PChat \<Rightarrow> string \<Rightarrow> string \<Rightarrow> P2PChat result" where
  "JoinRoom cfg L p roomID password =
     (case base64Decode L password of
        None \<Rightarrow> Err InvalidRoomKey
      | Some key \<Rightarrow>
          if length key \<noteq> 16 then Err RoomKeyLength
          else
            (let localNode = (LocalNode p)\<lparr>NoSuperNode := Config_NoSuperNode cfg\<rparr>
             in Ok (p\<lparr>Room := (Room p)\<lparr>RoomInfo_ID := roomID, Password := password\<rparr>,
                      MessageKey := key,
                      LocalNode := localNode,
                      SuperNodeMgr := NewSuperNodeManager localNode key (TCPPort cfg)
                                        (UDPPort cfg) (Config_NoSuperNode cfg)\<rparr>)))"

section \<open>Discovery (\<open>listenForBroadcasts\<close>, network.go)\<close>

text \<open>One turn of the receive loop: the read fails, or a datagram arrives from the
  address \<open>addr\<close> whose JSON decodes to a \<open>NodeInfo\<close> (or does not decode).\<close>

datatype udp_event = ReadError | Received "NodeInfo option" string

text \<open>
  The body of the loop, at time \<open>now\<close>, in three parts. Each returns the client's state
  afterwards and whether the goroutine is still running: when a call into the manager
  never returns, the goroutine stays inside it with what it had written before.

  First the statement \<open>if len(p.Room.Nodes) == 2 && p.SuperNodeMgr.GetSuperNodes() == nil\<close>
  that follows an admission. \<open>SelectInitialSuperNode\<close> writes to the manager only after
  its candidate loop, so a call that blocks there leaves the manager as it was, with the
  write lock taken.
\<close>

definition electIfSecond :: "nat \<Rightarrow> P2PChat \<Rightarrow> P2PChat \<times> bool" where
  "electIfSecond now p =
     (if length (Nodes (Room p)) = 2 then
        (case GetSuperNodes now (SuperNodeMgr p) of
           Ok superNodes \<Rightarrow>
             if superNodes = [] then
               if length (Nodes (Room p)) \<le> 5 then
                 (case SelectInitialSuperNode now (SuperNodeMgr p) of
                    Ok (selectedSuperNodeID, sm) \<Rightarrow> (p\<lparr>SuperNodeMgr := sm\<rparr>, True)
                  | _ \<Rightarrow> (p\<lparr>SuperNodeMgr := (SuperNodeMgr p)\<lparr>mu := WLocked\<rparr>\<rparr>, False))
               else (p, True)
             else (p, True)
         | _ \<Rightarrow> (p, False))
      else (p, True))"

text \<open>The body of \<open>if !isRoomNode && nodeInfo.ID != p.LocalNode.Address\<close>: the cap, the
  append, \<open>AddNode\<close> and the election.\<close>

definition admitNode :: "Config \<Rightarrow> nat \<Rightarrow> P2PChat \<Rightarrow> NodeInfo \<Rightarrow> P2PChat \<times> bool" where
  "admitNode cfg now p nodeInfo =
     (if int (length (Nodes (Room p))) \<ge> MaxNodes cfg then (p, True)
      else
        (let p1 = p\<lparr>Room := (Room p)\<lparr>Nodes := Nodes (Room p) @ [nodeInfo]\<rparr>\<rparr>
         in case AddNode now (SuperNodeMgr p1) nodeInfo of
              Ok sm \<Rightarrow> electIfSecond now (p1\<lparr>SuperNodeMgr := sm\<rparr>)
            | _ \<Rightarrow> (p1, False)))"

definition listenStep :: "Config \<Rightarrow> nat \<Rightarrow> P2PChat \<Rightarrow> udp_event \<Rightarrow> P2PChat \<times> bool" where
  "listenStep cfg now p ev =
     (case ev of
        ReadError \<Rightarrow> (p, True)
      | Received None addr \<Rightarrow> (p, True)
      | Received (Some received) addr \<Rightarrow>
          (let n1 = (if ID received = [] then received\<lparr>NoSuperNode := False\<rparr> else received);
               nodeInfo = (if Address n1 = [] then n1\<lparr>Address := addr\<rparr> else n1);
               isRoomNode = list_ex (\<lambda>node. ID node = ID nodeInfo) (Nodes (Room p))
           in if \<not> isRoomNode \<and> ID nodeInfo \<noteq> Address (LocalNode p) then
                admitNode cfg now p nodeInfo
              else (p, True)))"

text \<open>The loop \<open>for p.Running\<close> over the turns \<open>(now, event)\<close> that occur.\<close>

fun listenForBroadcasts :: "Config \<Rightarrow> P2PChat \<Rightarrow> (nat \<times> udp_event) list \<Rightarrow> P2PChat \<times> bool" where
  "listenForBroadcasts cfg p [] = (p, True)"
| "listenForBroadcasts cfg p ((now, ev) # evs) =
     (case listenStep cfg now p ev of
        (p', True) \<Rightarrow> listenForBroadcasts cfg p' evs
      | (p', False) \<Rightarrow> (p', False))"

section \<open>Transport (\<open>handleTCPConnection\<close>, network.go)\<close>

text \<open>The first forwarding loop, over the room's members: the addresses of the
  goroutines it starts.\<close>

fun forwardRegular :: "SuperNodeManager \<Rightarrow> string \<Rightarrow> string \<Rightarrow> NodeInfo list \<Rightarrow> string list result" where
  "forwardRegular sm localAddr remoteAddr [] = Ok []"
| "forwardRegular sm localAddr remoteAddr (node # rest) =
     (if Address node = localAddr \<or> Address node = remoteAddr then
        forwardRegular sm localAddr remoteAddr rest
      else
        rbind (GetNode sm (Address node)) (\<lambda>superNodeInfo.
          if (case superNodeInfo of Some sn \<Rightarrow> IsSuperNode sn | None \<Rightarrow> False) then
            forwardRegular sm localAddr remoteAddr rest
          else
            rbind (forwardRegular sm localAddr remoteAddr rest) (\<lambda>targets.
            Ok (Address node # targets))))"

text \<open>The second loop, over \<open>GetSuperNodes()\<close>.\<close>

definition forwardSuperNodes :: "nat \<Rightarrow> SuperNodeManager \<Rightarrow> string \<Rightarrow> string \<Rightarrow> string list result" where
  "forwardSuperNodes now sm localAddr remoteAddr =
     rbind (GetSuperNodes now sm) (\<lambda>otherSuperNodes.
       Ok (map Address
             (filter (\<lambda>superNode. \<not> (Address superNode = localAddr \<or> Address superNode = remoteAddr))
                otherSuperNodes)))"

text \<open>What handling one frame does: it is dropped, or the message is displayed after
  having been forwarded to the addresses of the two loops.\<close>

datatype handled = Dropped | Delivered "string list" "string list" Message

text \<open>The part of the loop body after the message has been decoded.\<close>

definition handleMessage :: "nat \<Rightarrow> P2PChat \<Rightarrow> string \<Rightarrow> Message \<Rightarrow> handled result" where
  "handleMessage now p remoteAddr message =
     (if RoomID message \<noteq> RoomInfo_ID (Room p) then Ok Dropped
      else if ShouldEnableSuperNodeMode (SuperNodeMgr p) (length (Nodes (Room p))) then
        rbind (IsLocalNodeSuperNode (SuperNodeMgr p)) (\<lambda>isSN.
          if isSN then
            rbind (forwardRegular (SuperNodeMgr p) (Address (LocalNode p)) remoteAddr
                     (Nodes (Room p))) (\<lambda>regular.
            rbind (forwardSuperNodes now (SuperNodeMgr p) (Address (LocalNode p)) remoteAddr)
              (\<lambda>relays. Ok (Delivered regular relays message)))
          else Ok (Delivered [] [] message))
      else Ok (Delivered [] [] message))"

text \<open>The loop body for the bytes \<open>buffer[:n]\<close> of one read from the connection whose
  remote address is \<open>remoteAddr\<close>.\<close>

definition handleTCPFrame :: "stdlib \<Rightarrow> nat \<Rightarrow> P2PChat \<Rightarrow> string \<Rightarrow> byte list \<Rightarrow> handled result" where
  "handleTCPFrame L now p remoteAddr frame =
     (case decryptAES (aes L) (MessageKey p) frame of
        Err e \<Rightarrow> Ok Dropped
      | Panic \<Rightarrow> Panic
      | Blocks \<Rightarrow> Blocks
      | Ok decryptedData \<Rightarrow>
          (case jsonUnmarshal L decryptedData of
             None \<Rightarrow> Ok Dropped
           | Some message \<Rightarrow> handleMessage now p remoteAddr message))"

section \<open>Sending (\<open>SendMessage\<close>)\<close>

text \<open>
  What a call and the goroutines it starts do: \<open>Display ts c\<close> prints the line
  \<open>[ts] Me: c\<close>, \<open>Dial a\<close> is a goroutine that dials the address \<open>a\<close> to write the frame.
  The network is given by \<open>dialOk\<close> and \<open>writeOk\<close>: whether a dial, and then the write,
  to an address succeeds.
\<close>

datatype effect = Display string string | Dial string

record sendenv =
  dialOk :: "string \<Rightarrow> bool"
  writeOk :: "string \<Rightarrow> bool"

text \<open>The loop of the direct fan-out; the flag is \<open>localDisplayed\<close>.\<close>

fun fanoutLoop :: "string \<Rightarrow> string \<Rightarrow> string \<Rightarrow> NodeInfo list \<Rightarrow> bool \<Rightarrow> effect list \<times> bool" where
  "fanoutLoop localAddr ts content [] localDisplayed = ([], localDisplayed)"
| "fanoutLoop localAddr ts content (node # rest) localDisplayed =
     (if Address node = localAddr then
        (let (es, d) = fanoutLoop localAddr ts content rest True
         in (Display ts content # es, d))
      else
        (let (es, d) = fanoutLoop localAddr ts content rest localDisplayed
         in (Dial (Address node) # es, d)))"

definition directFanout :: "P2PChat \<Rightarrow> string \<Rightarrow> string \<Rightarrow> effect list" where
  "directFanout p ts content =
     (let (es, localDisplayed) =
            fanoutLoop (Address (LocalNode p)) ts content (Nodes (Room p)) False
      in if \<not> localDisplayed then es @ [Display ts content] else es)"

text \<open>
  \<open>SendMessage(content)\<close> at time \<open>now\<close>; \<open>ts\<close> is the formatted timestamp and \<open>rnd\<close> the
  IV that \<open>encryptAES\<close> reads. In the branch of a Regular peer that knows a Relay the
  line is printed by the goroutine, after a successful write.
\<close>

definition SendMessage :: "stdlib \<Rightarrow> sendenv \<Rightarrow> nat \<Rightarrow> string \<Rightarrow> byte list option \<Rightarrow> P2PChat \<Rightarrow> string \<Rightarrow> effect list result" where
  "SendMessage L net now ts rnd p content =
     (let message = \<lparr>RoomID = RoomInfo_ID (Room p), Sender = Nickname (LocalNode p),
                      Timestamp = ts, Content = content\<rparr>
      in case jsonMarshal L message of
           None \<Rightarrow> Err MarshalError
         | Some messageData \<Rightarrow>
             rbind (encryptAES (aes L) rnd (MessageKey p) messageData) (\<lambda>encryptedData.
               if ShouldEnableSuperNodeMode (SuperNodeMgr p) (length (Nodes (Room p))) then
                 rbind (IsLocalNodeSuperNode (SuperNodeMgr p)) (\<lambda>isSN.
                   if isSN then
                     rbind (ForwardMessageToSuperNodes now (SuperNodeMgr p)) (\<lambda>dials.
                       Ok (map Dial dials @ [Display ts content]))
                   else
                     rbind (GetBestSuperNodeForConnection now (SuperNodeMgr p)) (\<lambda>superNode.
                       case superNode of
                         Some sn \<Rightarrow>
                           Ok (Dial (Address sn) #
                               (if dialOk net (Address sn) \<and> writeOk net (Address sn)
                                then [Display ts content] else []))
                       | None \<Rightarrow> Ok (directFanout p ts content)))
               else Ok (directFanout p ts content)))"

text \<open>How often a call prints the sender's own line.\<close>

definition displays :: "effect list \<Rightarrow> nat" where
  "displays es = length (filter (\<lambda>e. case e of Display ts c \<Rightarrow> True | Dial a \<Rightarrow> False) es)"

section \<open>Predicates and scenarios for the properties\<close>

text \<open>Entry \<open>j\<close> of the manager's table made a Relay at time \<open>now\<close>.\<close>

definition promote :: "nat \<Rightarrow> SuperNodeManager \<Rightarrow> nat \<Rightarrow> SuperNodeManager" where
  "promote now sm j = sm\<lparr>supernodes := (supernodes sm)
      [j := (supernodes sm ! j)\<lparr>IsSuperNode := True, LastActive := now\<rparr>]\<rparr>"

text \<open>
  No role was given against an opt-out between the states \<open>sm\<close> and \<open>sm'\<close>: every
  opted-out entry that is a Relay in \<open>sm'\<close> was an opted-out Relay in \<open>sm\<close> already, and
  an opted-out local node whose \<open>isSuperNode\<close> flag is set in \<open>sm'\<close> had it set in \<open>sm\<close>.
\<close>

definition keeps_optout :: "SuperNodeManager \<Rightarrow> SuperNodeManager \<Rightarrow> bool" where
  "keeps_optout sm sm' \<longleftrightarrow>
     (\<forall>sn'\<in>set (supernodes sm'). NoSuperNode sn' \<and> IsSuperNode sn' \<longrightarrow>
        (\<exists>sn\<in>set (supernodes sm). ID sn = ID sn' \<and> NoSuperNode sn \<and> IsSuperNode sn)) \<and>
     (noSuperNode sm' \<and> isSuperNode sm' \<longrightarrow> isSuperNode sm) \<and>
     noSuperNode sm' = noSuperNode sm"

text \<open>The table of a manager as triples (id, opted out, is Relay).\<close>

definition roles :: "SuperNodeManager \<Rightarrow> (string \<times> bool \<times> bool) list" where
  "roles sm = map (\<lambda>sn. (ID sn, NoSuperNode sn, IsSuperNode sn)) (supernodes sm)"

text \<open>A table entry for the peer at address \<open>a\<close> (its id, as the broadcasts set it), and
  a manager of the node at 10.0.0.1:8080 with a given table.\<close>

definition peer :: "string \<Rightarrow> bool \<Rightarrow> bool \<Rightarrow> nat \<Rightarrow> SuperNodeInfo" where
  "peer a optOut relay t =
     \<lparr>ID = a, Address = a, Nickname = a, NoSuperNode = optOut, IsSuperNode = relay,
      LastActive = t\<rparr>"

definition managerWith :: "SuperNodeInfo list \<Rightarrow> bool \<Rightarrow> SuperNodeManager" where
  "managerWith sns optOut =
     (NewSuperNodeManager
        \<lparr>ID = [], Address = ''10.0.0.1:8080'', Nickname = ''Me'', NoSuperNode = optOut\<rparr>
        (replicate 16 0) 8080 8081 optOut)\<lparr>supernodes := sns\<rparr>"

text \<open>One live Relay and three live Regular peers that have not opted out.\<close>

definition failoverState :: SuperNodeManager where
  "failoverState = managerWith
     [peer ''10.0.0.2:8080'' False True 95,
      peer ''10.0.0.3:8080'' False False 95,
      peer ''10.0.0.4:8080'' False False 95,
      peer ''10.0.0.5:8080'' False False 95] False"

text \<open>A Relay, an opted-out Regular peer and a Regular peer; the local node has opted
  out too.\<close>

definition optOutState :: SuperNodeManager where
  "optOutState = managerWith
     [peer ''10.0.0.2:8080'' False True 95,
      peer ''10.0.0.3:8080'' True False 95,
      peer ''10.0.0.4:8080'' False False 95] True"

definition loneRelayState :: SuperNodeManager where
  "loneRelayState = managerWith [peer ''10.0.0.2:8080'' False True 95] False"

text \<open>
  The default configuration of \<open>LoadConfig\<close>, an offline network (no STUN server
  answers, the outbound interface is 10.0.0.1), and the client \<open>NewP2PChat\<close> builds there.
\<close>

definition defaultConfig :: Config where
  "defaultConfig = \<lparr>TCPPort = 8080, UDPPort = 8081, MaxNodes = 100, Config_NoSuperNode = False\<rparr>"

definition offlineEnv :: netenv where
  "offlineEnv = \<lparr>stun = (\<lambda>server. ReadFails), outboundIP = Some ''10.0.0.1''\<rparr>"

definition localNode0 :: NodeInfo where
  "localNode0 = \<lparr>ID = [], Address = ''10.0.0.1:8080'', Nickname = ''Me'', NoSuperNode = False\<rparr>"

definition freshClient :: P2PChat where
  "freshClient =
     \<lparr>LocalNode = localNode0,
      Room = \<lparr>RoomInfo_ID = [], Nodes = [], Password = []\<rparr>,
      MessageKey = [], Running = False, PublicIP = ''10.0.0.1'', PublicPort = 8080,
      SuperNodeMgr = NewSuperNodeManager localNode0 [] 8080 8081 False\<rparr>"

text \<open>
  An instance of the library parameters: the toy cipher, base64 on the one key that is
  used (sixteen zero bytes are \<open>AAAAAAAAAAAAAAAAAAAAAA==\<close>), and a stand-in for JSON.
\<close>

definition demoLib :: stdlib where
  "demoLib =
     \<lparr>aes = xorCipher,
      base64Encode = (\<lambda>k. if k = replicate 16 0 then ''AAAAAAAAAAAAAAAAAAAAAA=='' else []),
      base64Decode = (\<lambda>s. if s = ''AAAAAAAAAAAAAAAAAAAAAA=='' then Some (replicate 16 0) else None),
      jsonMarshal = (\<lambda>m. Some (map (of_nat \<circ> of_char) (Content m))),
      jsonUnmarshal = (\<lambda>b. None)\<rparr>"

text \<open>The client after \<open>CreateRoom("r1")\<close> with the zero key, and after \<open>JoinRoom\<close> of that
  room.\<close>

definition creatorState :: P2PChat where
  "creatorState =
     freshClient
       \<lparr>MessageKey := replicate 16 0,
        Room := \<lparr>RoomInfo_ID = ''r1'',
                 Nodes = [\<lparr>ID = ''10.0.0.1:8080'', Address = ''10.0.0.1:8080'', Nickname = ''Me'',
                           NoSuperNode = False\<rparr>],
                 Password = ''AAAAAAAAAAAAAAAAAAAAAA==''\<rparr>,
        SuperNodeMgr := NewSuperNodeManager localNode0 (replicate 16 0) 8080 8081 False\<rparr>"

definition joinerState :: P2PChat where
  "joinerState =
     freshClient
       \<lparr>MessageKey := replicate 16 0,
        Room := \<lparr>RoomInfo_ID = ''r1'', Nodes = [], Password = ''AAAAAAAAAAAAAAAAAAAAAA==''\<rparr>,
        SuperNodeMgr := NewSuperNodeManager localNode0 (replicate 16 0) 8080 8081 False\<rparr>"

text \<open>The broadcast of peer number \<open>i\<close>, and the first \<open>n\<close> peers announcing themselves
  one after the other.\<close>

definition announcement :: "nat \<Rightarrow> NodeInfo" where
  "announcement i =
     (let a = ''10.0.1.'' @ showNat i @ '':8080''
      in \<lparr>ID = a, Address = a, Nickname = ''peer'', NoSuperNode = False\<rparr>)"

definition announcements :: "nat \<Rightarrow> (nat \<times> udp_event) list" where
  "announcements n = map (\<lambda>i. (100, Received (Some (announcement i)) ''10.0.1.0:8081'')) [0..<n]"

text \<open>
  Rooms for the transport: the local node 10.0.0.1:8080 with the members at the given
  addresses and the given table in its manager. In \<open>fourMembers\<close> the local node is a
  Relay and the others are A = 10.0.0.2 and B = 10.0.0.3 (Regular) and C = 10.0.0.4
  (Relay); \<open>sevenMembers\<close> has three more members, one of them a Relay.
\<close>

definition memberAt :: "string \<Rightarrow> NodeInfo" where
  "memberAt a = \<lparr>ID = a, Address = a, Nickname = a, NoSuperNode = False\<rparr>"

definition relayRoom :: "string list \<Rightarrow> SuperNodeInfo list \<Rightarrow> bool \<Rightarrow> P2PChat" where
  "relayRoom addrs table localIsRelay =
     creatorState
       \<lparr>Room := (Room creatorState)\<lparr>Nodes := map memberAt addrs\<rparr>,
        SuperNodeMgr := (managerWith table False)\<lparr>isSuperNode := localIsRelay\<rparr>\<rparr>"

definition fourMembers :: P2PChat where
  "fourMembers = relayRoom
     [''10.0.0.1:8080'', ''10.0.0.2:8080'', ''10.0.0.3:8080'', ''10.0.0.4:8080'']
     [peer ''10.0.0.2:8080'' False False 95, peer ''10.0.0.3:8080'' False False 95,
      peer ''10.0.0.4:8080'' False True 95] True"

definition sevenMembers :: "bool \<Rightarrow> P2PChat" where
  "sevenMembers localIsRelay = relayRoom
     [''10.0.0.1:8080'', ''10.0.0.2:8080'', ''10.0.0.3:8080'', ''10.0.0.4:8080'',
      ''10.0.0.5:8080'', ''10.0.0.6:8080'', ''10.0.0.7:8080'']
     [peer ''10.0.0.2:8080'' False False 95, peer ''10.0.0.3:8080'' False False 95,
      peer ''10.0.0.4:8080'' False True 95, peer ''10.0.0.5:8080'' False False 95,
      peer ''10.0.0.6:8080'' False True 95, peer ''10.0.0.7:8080'' False False 95] localIsRelay"

definition demoMessage :: Message where
  "demoMessage =
     \<lparr>RoomID = ''r1'', Sender = ''A'', Timestamp = ''2026-01-10 12:00:00'', Content = ''hi''\<rparr>"

text \<open>The table marks the address \<open>a\<close> as a Relay: what the first forwarding loop reads
  through \<open>GetNode\<close>.\<close>

definition markedRelay :: "SuperNodeManager \<Rightarrow> string \<Rightarrow> bool" where
  "markedRelay sm a =
     (case find (\<lambda>sn. ID sn = a) (supernodes sm) of Some sn \<Rightarrow> IsSuperNode sn | None \<Rightarrow> False)"

text \<open>How many entries of the member list carry the local node's address.\<close>

definition localEntries :: "P2PChat \<Rightarrow> nat" where
  "localEntries p =
     length (filter (\<lambda>node. Address node = Address (LocalNode p)) (Nodes (Room p)))"

text \<open>
  The state of a client while its receive loop runs and nobody has been elected: the
  manager's mutex is free, its table holds no Relay, and it knows the local node under
  the client's own address.
\<close>

definition quiet :: "P2PChat \<Rightarrow> bool" where
  "quiet p \<longleftrightarrow>
     mu (SuperNodeMgr p) = Unlocked \<and>
     (\<forall>sn\<in>set (supernodes (SuperNodeMgr p)). \<not> IsSuperNode sn) \<and>
     Address (localNodeInfo (SuperNodeMgr p)) = Address (LocalNode p)"

section \<open>Properties of the codec\<close>

lemma xorBytes_length: "length (xorBytes a b) = min (length a) (length b)"
  by (simp add: xorBytes_def)

lemma xorBytes_cancel: "length a = length b \<Longrightarrow> xorBytes (xorBytes a b) b = a"
proof (induction a arbitrary: b)
  case Nil
  then show ?case by (simp add: xorBytes_def)
next
  case (Cons x a)
  then obtain y b' where b: "b = y # b'" by (cases b) auto
  with Cons show ?case by (simp add: xorBytes_def xor.assoc)
qed

lemma cbcEncryptBlocks_length:
  "cipher_ok C k \<Longrightarrow> length iv = BlockSize \<Longrightarrow> length src = n * BlockSize \<Longrightarrow>
   length (cbcEncryptBlocks C k n iv src) = n * BlockSize"
proof (induction n arbitrary: iv src)
  case 0
  then show ?case by simp
next
  case (Suc n)
  let ?c = "Encrypt C k (xorBytes (take BlockSize src) iv)"
  have lx: "length (xorBytes (take BlockSize src) iv) = BlockSize"
    using Suc.prems by (simp add: xorBytes_length)
  have lc: "length ?c = BlockSize"
    using Suc.prems(1) lx by (simp add: cipher_ok_def)
  have "length (cbcEncryptBlocks C k n ?c (drop BlockSize src)) = n * BlockSize"
    using Suc.IH [OF Suc.prems(1) lc] Suc.prems(3) by simp
  then show ?case using lc by (simp add: Let_def)
qed

lemma cbc_roundtrip:
  "cipher_ok C k \<Longrightarrow> length iv = BlockSize \<Longrightarrow> length src = n * BlockSize \<Longrightarrow>
   cbcDecryptBlocks C k n iv (cbcEncryptBlocks C k n iv src) = src"
proof (induction n arbitrary: iv src)
  case 0
  then show ?case by simp
next
  case (Suc n)
  let ?p = "take BlockSize src"
  let ?c = "Encrypt C k (xorBytes ?p iv)"
  let ?rest = "cbcEncryptBlocks C k n ?c (drop BlockSize src)"
  have lp: "length ?p = BlockSize" using Suc.prems by simp
  have lx: "length (xorBytes ?p iv) = BlockSize"
    using Suc.prems by (simp add: xorBytes_length)
  have lc: "length ?c = BlockSize"
    using Suc.prems(1) lx by (simp add: cipher_ok_def)
  have dec: "Decrypt C k ?c = xorBytes ?p iv"
    using Suc.prems(1) lx by (simp add: cipher_ok_def)
  have first: "xorBytes (Decrypt C k ?c) iv = ?p"
    using dec xorBytes_cancel [of ?p iv] lp Suc.prems(2) by simp
  have rest: "cbcDecryptBlocks C k n ?c ?rest = drop BlockSize src"
    using Suc.IH [OF Suc.prems(1) lc] Suc.prems(3) by simp
  show ?case
    using first rest lc by (simp add: Let_def)
qed

lemma pkcs7Pad_length:
  "length (pkcs7Pad d BlockSize) = (length d div BlockSize + 1) * BlockSize"
proof -
  have "length d + (16 - length d mod 16) = (length d div 16 + 1) * 16"
    by presburger
  then show ?thesis
    unfolding pkcs7Pad_def BlockSize_def Let_def by simp
qed

lemma pkcs7_roundtrip: "pkcs7Unpad (pkcs7Pad d BlockSize) BlockSize = Ok d"
proof -
  define p where "p = BlockSize - length d mod BlockSize"
  have p: "0 < p" "p \<le> 16" by (simp_all add: p_def BlockSize_def)
  have up: "unat (of_nat p :: byte) = p"
    using p by (simp add: unat_of_nat)
  have pad: "pkcs7Pad d BlockSize = d @ replicate p (of_nat p)"
    by (simp add: pkcs7Pad_def p_def Let_def)
  have lastb: "(d @ replicate p (of_nat p :: byte)) ! (length d + p - 1) = of_nat p"
  proof -
    have "\<not> length d + p - 1 < length d" using p by arith
    moreover have "length d + p - 1 - length d < p" using p by arith
    ultimately show ?thesis by (simp add: nth_append del: One_nat_def)
  qed
  have all: "list_all (\<lambda>i. (d @ replicate p (of_nat p :: byte)) ! i = of_nat p) [length d ..< length d + p]"
    by (auto simp: list_all_iff nth_append)
  show ?thesis
    unfolding pad pkcs7Unpad_def
    using p up lastb all by (simp add: Let_def BlockSize_def)
qed

lemma cbcDecryptBlocks_length:
  "cipher_ok C k \<Longrightarrow> length iv = BlockSize \<Longrightarrow> length src = n * BlockSize \<Longrightarrow>
   length (cbcDecryptBlocks C k n iv src) = n * BlockSize"
proof (induction n arbitrary: iv src)
  case 0
  then show ?case by simp
next
  case (Suc n)
  let ?c = "take BlockSize src"
  have lc: "length ?c = BlockSize" using Suc.prems(3) by simp
  have ld: "length (Decrypt C k ?c) = BlockSize"
    using Suc.prems(1) lc by (simp add: cipher_ok_def)
  have "length (cbcDecryptBlocks C k n ?c (drop BlockSize src)) = n * BlockSize"
    using Suc.IH [OF Suc.prems(1) lc] Suc.prems(3) by simp
  then show ?case using ld Suc.prems(2) by (simp add: Let_def xorBytes_length)
qed

lemma xorCipher_ok: "length k = 16 \<Longrightarrow> cipher_ok xorCipher k"
  by (simp add: cipher_ok_def xorCipher_def BlockSize_def xorBytes_length xorBytes_cancel)

lemma pkcs7Unpad_bad_value:
  "data \<noteq> [] \<Longrightarrow> unat (last data) = 0 \<or> unat (last data) > blockSize \<Longrightarrow>
   pkcs7Unpad data blockSize = Err InvalidPadding"
  by (auto simp: pkcs7Unpad_def Let_def last_conv_nth)

lemma pkcs7Unpad_mismatch:
  assumes "data \<noteq> []" and "unat (last data) \<le> length data"
    and "length data - unat (last data) \<le> i" and "i < length data" and "data ! i \<noteq> last data"
  shows "pkcs7Unpad data blockSize = Err InvalidPadding"
proof -
  have l: "data ! (length data - 1) = last data"
    using assms(1) by (simp add: last_conv_nth)
  have "\<not> list_all (\<lambda>i. data ! i = last data) [length data - unat (last data) ..< length data]"
    using assms(3,4,5) by (auto simp: list_all_iff)
  then show ?thesis
    using assms(1,2) l by (simp add: pkcs7Unpad_def Let_def del: One_nat_def)
qed

text \<open>
  Claim C1 (padding round-trip). For every 16-byte key \<open>k\<close>, every 16-byte IV read from
  the random source and every plaintext \<open>p\<close> (of any length, so in particular of length
  0 to 1000), \<open>encryptAES\<close> returns a blob and \<open>decryptAES\<close> of that blob under the same
  key returns exactly \<open>p\<close>: neither call panics or fails.
\<close>

theorem encryptAES_decryptAES_roundtrip:
  assumes "cipher_ok C k" and "length k = 16" and "length iv = 16"
  shows "\<exists>c. encryptAES C (Some iv) k p = Ok c \<and> decryptAES C k c = Ok p"
proof -
  let ?padded = "pkcs7Pad p BlockSize"
  let ?n = "length p div BlockSize + 1"
  let ?ct = "cbcEncryptBlocks C k ?n iv ?padded"
  have lpad: "length ?padded = ?n * BlockSize" by (rule pkcs7Pad_length)
  have iv: "length iv = BlockSize" using assms(3) by (simp add: BlockSize_def)
  have lct: "length ?ct = ?n * BlockSize"
    using cbcEncryptBlocks_length [OF assms(1) iv lpad] .
  have m: "length ?padded mod BlockSize = 0" and d: "length ?padded div BlockSize = ?n"
    using lpad by (simp_all add: BlockSize_def)
  have m': "length ?ct mod BlockSize = 0" and d': "length ?ct div BlockSize = ?n"
    using lct by (simp_all add: BlockSize_def)
  have enc: "encryptAES C (Some iv) k p = Ok (iv @ ?ct)"
    using assms(2) m d by (simp add: encryptAES_def NewCipher_def CBCEncrypt_def rbind_def)
  have rt: "cbcDecryptBlocks C k ?n iv ?ct = ?padded"
    using cbc_roundtrip [OF assms(1) iv lpad] .
  have dec: "decryptAES C k (iv @ ?ct) = Ok p"
    using assms(2) iv m' d' rt pkcs7_roundtrip [of p]
    by (simp add: decryptAES_def NewCipher_def CBCDecrypt_def Let_def rbind_def)
  show ?thesis using enc dec by blast
qed

theorem encryptAES_decryptAES_roundtrip_witness:
  "length (replicate 16 (1::byte)) = 16 \<and> length (replicate 16 (7::byte)) = 16 \<and>
   (\<exists>c. encryptAES xorCipher (Some (replicate 16 7)) (replicate 16 1) [104, 105] = Ok c \<and>
        decryptAES xorCipher (replicate 16 1) c = Ok [104, 105])"
  using encryptAES_decryptAES_roundtrip
    [OF xorCipher_ok, of "replicate 16 1" "replicate 16 7" "[104, 105]"]
  by simp

text \<open>
  Claim C5 (rejection). Under a 16-byte key, \<open>decryptAES\<close> fails with
  "ciphertext too short" when the blob is shorter than one block and with "ciphertext
  length not multiple of block size" when the bytes after the IV are not a whole number
  of blocks (the two errors of the invalid-input kind); and when at least one block
  follows the IV, it fails with "invalid padding" (the bad-padding kind) as soon as the
  last byte of the CBC-decrypted plaintext is 0 or exceeds 16, or one of the trailing
  bytes it counts differs from it.
\<close>

theorem decryptAES_errors:
  assumes "length k = 16" and "cipher_ok C k"
  shows "(length b < 16 \<longrightarrow> decryptAES C k b = Err CiphertextTooShort) \<and>
         (16 \<le> length b \<and> (length b - 16) mod 16 \<noteq> 0 \<longrightarrow>
            decryptAES C k b = Err NotBlockMultiple) \<and>
         (32 \<le> length b \<and> (length b - 16) mod 16 = 0 \<longrightarrow>
            (let plaintext = cbcDecryptBlocks C k ((length b - 16) div 16) (take 16 b) (drop 16 b);
                 padding = unat (last plaintext)
             in (padding = 0 \<or> padding > 16 \<or>
                 (\<exists>i. length plaintext - padding \<le> i \<and> i < length plaintext \<and>
                      plaintext ! i \<noteq> last plaintext))
                \<longrightarrow> decryptAES C k b = Err InvalidPadding))"
proof (intro conjI impI)
  assume "length b < 16"
  then show "decryptAES C k b = Err CiphertextTooShort"
    using assms(1) by (simp add: decryptAES_def NewCipher_def BlockSize_def)
next
  assume "16 \<le> length b \<and> (length b - 16) mod 16 \<noteq> 0"
  then show "decryptAES C k b = Err NotBlockMultiple"
    using assms(1) by (simp add: decryptAES_def NewCipher_def BlockSize_def)
next
  assume h: "32 \<le> length b \<and> (length b - 16) mod 16 = 0"
  define n where "n = (length b - 16) div 16"
  define pt where "pt = cbcDecryptBlocks C k n (take 16 b) (drop 16 b)"
  have n: "length (drop 16 b) = n * BlockSize" "0 < n"
    using h by (auto simp: n_def BlockSize_def)
  have lpt: "length pt = n * BlockSize"
    unfolding pt_def using cbcDecryptBlocks_length [OF assms(2) _ n(1)] h
    by (simp add: BlockSize_def)
  then have ne: "pt \<noteq> []" and big: "16 \<le> length pt"
    using n(2) by (auto simp: BlockSize_def)
  have dec: "decryptAES C k b = pkcs7Unpad pt BlockSize"
    using assms(1) h
    by (simp add: decryptAES_def NewCipher_def CBCDecrypt_def Let_def pt_def n_def BlockSize_def rbind_def)
  have "unat (last pt) = 0 \<or> unat (last pt) > 16 \<or>
        (\<exists>i. length pt - unat (last pt) \<le> i \<and> i < length pt \<and> pt ! i \<noteq> last pt)
        \<Longrightarrow> decryptAES C k b = Err InvalidPadding"
  proof -
    assume bad: "unat (last pt) = 0 \<or> unat (last pt) > 16 \<or>
        (\<exists>i. length pt - unat (last pt) \<le> i \<and> i < length pt \<and> pt ! i \<noteq> last pt)"
    show ?thesis
    proof (cases "unat (last pt) = 0 \<or> unat (last pt) > 16")
      case True
      then show ?thesis
        using dec pkcs7Unpad_bad_value [OF ne, of BlockSize] by (simp add: BlockSize_def)
    next
      case False
      with bad obtain i where i: "length pt - unat (last pt) \<le> i" "i < length pt" "pt ! i \<noteq> last pt"
        by blast
      have "unat (last pt) \<le> length pt" using False big by simp
      from pkcs7Unpad_mismatch [OF ne this i] dec show ?thesis by simp
    qed
  qed
  then show "let plaintext = cbcDecryptBlocks C k ((length b - 16) div 16) (take 16 b) (drop 16 b);
                 padding = unat (last plaintext)
             in (padding = 0 \<or> padding > 16 \<or>
                 (\<exists>i. length plaintext - padding \<le> i \<and> i < length plaintext \<and>
                      plaintext ! i \<noteq> last plaintext))
                \<longrightarrow> decryptAES C k b = Err InvalidPadding"
    unfolding Let_def pt_def n_def by blast
qed

theorem decryptAES_errors_witness:
  "decryptAES xorCipher (replicate 16 0) (replicate 15 0) = Err CiphertextTooShort \<and>
   decryptAES xorCipher (replicate 16 0) (replicate 17 0) = Err NotBlockMultiple \<and>
   decryptAES xorCipher (replicate 16 0) (replicate 32 0) = Err InvalidPadding \<and>
   decryptAES xorCipher (replicate 16 0) (replicate 30 0 @ [1, 2]) = Err InvalidPadding"
proof -
  let ?k = "replicate 16 (0::byte)"
  have k: "length ?k = 16" by simp
  note th = decryptAES_errors [OF k xorCipher_ok [OF k]]
  have a: "decryptAES xorCipher ?k (replicate 15 0) = Err CiphertextTooShort"
    using th [of "replicate 15 0"] by simp
  have b: "decryptAES xorCipher ?k (replicate 17 0) = Err NotBlockMultiple"
    using th [of "replicate 17 0"] by simp
  have pc: "cbcDecryptBlocks xorCipher ?k ((length (replicate 32 (0::byte)) - 16) div 16)
       (take 16 (replicate 32 0)) (drop 16 (replicate 32 0)) = replicate 16 0"
    by code_simp
  have c: "decryptAES xorCipher ?k (replicate 32 0) = Err InvalidPadding"
    using th [of "replicate 32 0"] unfolding Let_def pc by simp
  have pe: "cbcDecryptBlocks xorCipher ?k ((length (replicate 30 (0::byte) @ [1, 2]) - 16) div 16)
       (take 16 (replicate 30 0 @ [1, 2])) (drop 16 (replicate 30 0 @ [1, 2]))
       = replicate 14 0 @ [1, 2]"
    by code_simp
  have "length (replicate 14 (0::byte) @ [1, 2]) - unat (last (replicate 14 (0::byte) @ [1, 2])) \<le> 14 \<and>
        14 < length (replicate 14 (0::byte) @ [1, 2]) \<and>
        (replicate 14 (0::byte) @ [1, 2]) ! 14 \<noteq> last (replicate 14 (0::byte) @ [1, 2])"
    by (simp add: nth_append)
  then have e: "decryptAES xorCipher ?k (replicate 30 0 @ [1, 2]) = Err InvalidPadding"
    using th [of "replicate 30 0 @ [1, 2]"] unfolding Let_def pe by fastforce
  show ?thesis using a b c e by simp
qed

text \<open>A blob of exactly one block (an IV and no ciphertext) is rejected by \<open>pkcs7Unpad\<close>
  with "data is empty".\<close>

lemma decryptAES_only_iv:
  "length k = 16 \<Longrightarrow> length b = 16 \<Longrightarrow> decryptAES C k b = Err DataEmpty"
  by (simp add: decryptAES_def NewCipher_def BlockSize_def CBCDecrypt_def pkcs7Unpad_def rbind_def)

section \<open>Properties of the NAT resolver\<close>

text \<open>
  Claim C2 (\<open>parseSTUNResponse\<close> on a truncated attribute). The claim does not hold of
  the code. The guard before the address is read is \<open>len(attrValue) >= 4\<close>, while the
  address is the slice \<open>attrValue[4:8]\<close>. On the 28-byte binding response whose
  XOR-MAPPED-ADDRESS attribute has length 4, a slice that ends with the datagram makes
  the parser panic (slice bounds out of range); in the 1024-byte receive buffer of
  \<open>sendSTUNRequest\<close> the same response is parsed without error, the address being read
  from the four buffer bytes behind the datagram (zeros, hence the magic cookie's bytes
  33.18.164.66). In neither case is the result "mapped address not found".
\<close>

theorem parseSTUNResponse_truncated_attribute:
  "length truncatedResponse = 28 \<and>
   parseSTUNResponse (truncatedResponse, 28) = Panic \<and>
   sendSTUNRequest (\<lambda>server. Datagram truncatedResponse) ''stun.l.google.com:19302''
     = Ok (''33.18.164.66'', 1)"
  by code_simp

text \<open>
  Claim C9 (\<open>getPublicIPAndPort\<close> never fails). The function has no return with a
  non-nil error, and it returns the first server's answer or the local fallback whenever
  no attempt panics (the three lemmas below). It does not return for every outcome of
  the attempts: when the first server answers with the 1024-byte response above, the
  truncated attribute lies at the end of the receive buffer, \<open>attrValue[4:8]\<close> exceeds the
  capacity and the call panics instead of falling back.
\<close>

theorem getPublicIPAndPort_panics:
  "length fullBufferResponse = 1024 \<and>
   getPublicIPAndPort 8080
     \<lparr>stun = (\<lambda>server. Datagram fullBufferResponse), outboundIP = Some ''192.168.1.5''\<rparr>
     = Panic"
  by code_simp

lemma tryServers_no_err: "tryServers net servers \<noteq> Err e"
  by (induction servers) (auto split: result.splits)

lemma getPublicIPAndPort_no_err: "getPublicIPAndPort tcp env \<noteq> Err e"
  using tryServers_no_err [of "stun env" stunServers]
  by (auto simp: getPublicIPAndPort_def rbind_def split: result.splits option.splits)

lemma tryServers_all_fail:
  "\<forall>s \<in> set servers. \<exists>e. sendSTUNRequest net s = Err e \<Longrightarrow> tryServers net servers = Ok None"
  by (induction servers) auto

lemma tryServers_first:
  "\<forall>s \<in> set pre. \<exists>e. sendSTUNRequest net s = Err e \<Longrightarrow> sendSTUNRequest net s = Ok r \<Longrightarrow>
   tryServers net (pre @ s # post) = Ok (Some r)"
  by (induction pre) (auto split: prod.splits)

lemma getPublicIPAndPort_fallback:
  "\<forall>s \<in> set stunServers. \<exists>e. sendSTUNRequest (stun env) s = Err e \<Longrightarrow>
   getPublicIPAndPort tcp env = Ok (getLocalIP (outboundIP env), tcp)"
  by (simp add: getPublicIPAndPort_def rbind_def tryServers_all_fail)

lemma getPublicIPAndPort_first_success:
  "stunServers = pre @ s # post \<Longrightarrow>
   \<forall>s \<in> set pre. \<exists>e. sendSTUNRequest (stun env) s = Err e \<Longrightarrow>
   sendSTUNRequest (stun env) s = Ok (ip, port) \<Longrightarrow>
   getPublicIPAndPort tcp env = Ok (ip, port)"
  using tryServers_first [of pre "stun env" s "(ip, port)" post]
  by (simp add: getPublicIPAndPort_def rbind_def)

section \<open>Properties of the topology manager\<close>

text \<open>
  The methods that elect call \<open>checkIfNodeIsNoSuperNode\<close>, hence \<open>GetNode\<close> and its
  \<open>RLock\<close>, while they hold the manager's write lock: such a call never returns.
\<close>

lemma checkIfNodeIsNoSuperNode_locked: "mu sm = WLocked \<Longrightarrow> checkIfNodeIsNoSuperNode sm x = Blocks"
  by (simp add: checkIfNodeIsNoSuperNode_def GetNode_def RLock_def rbind_def)

lemma checkIfNodeIsNoSuperNode_unlocked:
  "mu sm = Unlocked \<Longrightarrow> checkIfNodeIsNoSuperNode sm x =
     Ok (case find (\<lambda>sn. ID sn = x) (supernodes sm) of Some n \<Rightarrow> NoSuperNode n | None \<Rightarrow> False)"
  by (simp add: checkIfNodeIsNoSuperNode_def GetNode_def RLock_def rbind_def)

lemma selectLoop_locked:
  "mu sm = WLocked \<Longrightarrow> selectLoop now sm i sns =
     (if \<exists>sn\<in>set sns. \<not> IsSuperNode sn \<and> active now sn \<and> ID sn \<noteq> Address (localNodeInfo sm)
      then Blocks else Ok None)"
  by (induction sns arbitrary: i) (auto simp: checkIfNodeIsNoSuperNode_locked rbind_def)

lemma collectCandidates_locked:
  "mu sm = WLocked \<Longrightarrow> collectCandidates sm sns count =
     (if count < 5 \<and> (\<exists>sn\<in>set sns. ID sn \<noteq> Address (localNodeInfo sm)) then Blocks else Ok [])"
  by (induction sns arbitrary: count) (auto simp: checkIfNodeIsNoSuperNode_locked rbind_def)

lemma SelectInitialSuperNode_unlocked:
  "mu sm = Unlocked \<Longrightarrow> SelectInitialSuperNode now sm =
     (if \<exists>sn\<in>set (supernodes sm). ID sn \<noteq> Address (localNodeInfo sm) then Blocks else Ok ([], sm))"
  by (auto simp: SelectInitialSuperNode_def Lock_def Unlock_def rbind_def collectCandidates_locked)

lemma SelectInitialSuperNode_locked: "mu sm = WLocked \<Longrightarrow> SelectInitialSuperNode now sm = Blocks"
  by (simp add: SelectInitialSuperNode_def Lock_def rbind_def)


lemma find_distinct:
  "distinct (map f xs) \<Longrightarrow> i < length xs \<Longrightarrow> find (\<lambda>s. f s = f (xs ! i)) xs = Some (xs ! i)"
proof (induction xs arbitrary: i)
  case Nil
  then show ?case by simp
next
  case (Cons x xs)
  show ?case
  proof (cases i)
    case 0
    then show ?thesis by simp
  next
    case (Suc j)
    with Cons.prems have "f x \<noteq> f (xs ! j)" by (auto simp: image_iff)
    with Cons Suc show ?thesis by simp
  qed
qed

lemma selectLoop_unlocked:
  assumes "mu sm = Unlocked" and "distinct (map ID (supernodes sm))"
  shows "sns = drop i (supernodes sm) \<Longrightarrow> selectLoop now sm i sns = Ok (Some sm') \<Longrightarrow>
     \<exists>j<length (supernodes sm). \<not> NoSuperNode (supernodes sm ! j) \<and> sm' = promote now sm j"
proof (induction sns arbitrary: i)
  case Nil
  then show ?case by simp
next
  case (Cons sn rest)
  from Cons.prems(1) have i: "i < length (supernodes sm)"
    by (metis drop_all list.distinct(1) not_le)
  from Cons.prems(1) i have sn: "sn = supernodes sm ! i" and rest: "rest = drop (i + 1) (supernodes sm)"
    by (simp_all add: Cons_nth_drop_Suc [symmetric])
  have chk: "checkIfNodeIsNoSuperNode sm (ID sn) = Ok (NoSuperNode sn)"
    using assms i sn by (simp add: checkIfNodeIsNoSuperNode_unlocked find_distinct)
  show ?case
  proof (cases "\<not> IsSuperNode sn \<and> active now sn \<and> ID sn \<noteq> Address (localNodeInfo sm) \<and> \<not> NoSuperNode sn")
    case True
    with Cons.prems(2) chk have "sm' = promote now sm i"
      by (simp add: rbind_def promote_def)
    with True i sn show ?thesis by blast
  next
    case False
    with Cons.prems(2) chk have "selectLoop now sm (i + 1) rest = Ok (Some sm')"
      by (auto simp: rbind_def split: if_splits)
    from Cons.IH [OF rest this] show ?thesis .
  qed
qed


lemma keeps_optout_promote:
  "j < length (supernodes sm) \<Longrightarrow> \<not> NoSuperNode (supernodes sm ! j) \<Longrightarrow>
   keeps_optout sm (promote now sm j)"
  unfolding keeps_optout_def promote_def
  by (auto simp: set_conv_nth nth_list_update)

lemma selectNewSuperNode_keeps:
  assumes "distinct (map ID (supernodes sm))" and "selectNewSuperNode now sm = Ok sm'"
  shows "keeps_optout sm sm'"
proof (cases "mu sm")
  case WLocked
  with assms(2) show ?thesis
    by (auto simp: selectNewSuperNode_def selectLoop_locked rbind_def keeps_optout_def
        split: if_splits)
next
  case Unlocked
  from assms(2) obtain r where r: "selectLoop now sm 0 (supernodes sm) = Ok r"
    by (auto simp: selectNewSuperNode_def rbind_def split: result.splits)
  show ?thesis
  proof (cases r)
    case None
    with assms(2) r show ?thesis
      by (auto simp: selectNewSuperNode_def rbind_def keeps_optout_def split: if_splits)
  next
    case (Some sm1)
    with assms(2) r have "sm' = sm1" by (simp add: selectNewSuperNode_def rbind_def)
    with selectLoop_unlocked [OF Unlocked assms(1), of "supernodes sm" 0 now sm1] r Some
    show ?thesis by (auto simp: keeps_optout_promote)
  qed
qed

lemma set_remove_nth: "set (take i xs @ drop (i + 1) xs) \<subseteq> set xs"
  by (auto dest: in_set_takeD in_set_dropD)

lemma HandleNodeLeave_keeps:
  assumes "HandleNodeLeave now sm nodeID = Ok sm'"
  shows "keeps_optout sm sm'"
proof (cases "mu sm")
  case WLocked
  with assms show ?thesis by (simp add: HandleNodeLeave_def Lock_def rbind_def)
next
  case Unlocked
  let ?smL = "sm\<lparr>mu := WLocked\<rparr>"
  have L: "mu ?smL = WLocked" by simp
  show ?thesis
  proof (cases "findIndex (\<lambda>sn. ID sn = nodeID) (supernodes sm)")
    case None
    with assms Unlocked show ?thesis
      by (auto simp: HandleNodeLeave_def Lock_def Unlock_def rbind_def keeps_optout_def)
  next
    case (Some i)
    from assms Unlocked Some obtain smx where
      smx: "(if IsSuperNode (supernodes sm ! i) then handleSuperNodeLeave now ?smL else Ok ?smL) = Ok smx"
      and sm': "sm' = Unlock (smx\<lparr>supernodes := take i (supernodes smx) @ drop (i + 1) (supernodes smx)\<rparr>)"
      by (auto simp: HandleNodeLeave_def Lock_def rbind_def split: result.splits)
    from smx have "supernodes smx = supernodes sm \<and> noSuperNode smx = noSuperNode sm \<and>
        (noSuperNode sm \<and> isSuperNode smx \<longrightarrow> isSuperNode sm)"
      by (auto simp: handleSuperNodeLeave_def selectNewSuperNode_def selectLoop_locked [OF L] rbind_def
          Let_def split: if_splits)
    with sm' show ?thesis
      using set_remove_nth [of i "supernodes sm"]
      by (auto simp: keeps_optout_def Unlock_def)
  qed
qed

text \<open>
  The paths that elect read the opt-out flag. The failover loop, run on a free mutex,
  passes over the opted-out peer 10.0.0.3:8080 and promotes 10.0.0.4:8080. When the last
  Relay leaves a table that holds no other peer, \<open>HandleNodeLeave\<close> promotes the local
  node, unless the local node has opted out.
\<close>

lemma selectNewSuperNode_skips_optout:
  "roles optOutState =
     [(''10.0.0.2:8080'', False, True), (''10.0.0.3:8080'', True, False),
      (''10.0.0.4:8080'', False, False)] \<and>
   rbind (selectNewSuperNode 100 optOutState) (\<lambda>sm'. Ok (roles sm')) =
     Ok [(''10.0.0.2:8080'', False, True), (''10.0.0.3:8080'', True, False),
         (''10.0.0.4:8080'', False, True)]"
  by code_simp

lemma HandleNodeLeave_self_promotion:
  "rbind (HandleNodeLeave 100 loneRelayState ''10.0.0.2:8080'')
     (\<lambda>sm'. Ok (roles sm', isSuperNode sm')) = Ok ([], True) \<and>
   rbind (HandleNodeLeave 100 (managerWith [peer ''10.0.0.2:8080'' False True 95] True)
            ''10.0.0.2:8080'') (\<lambda>sm'. Ok (roles sm', isSuperNode sm')) = Ok ([], False)"
  by code_simp

text \<open>
  Claim C7 (opt-out). The claim does not hold of the code for direct role assignment.
  A peer that announces itself with \<open>NoSuperNode = true\<close> is entered in the table by
  \<open>AddNode\<close>; \<open>SetAsSuperNode\<close> with its id then sets \<open>IsSuperNode = true\<close> on that
  entry. In the same way \<open>SetLocalNodeAsSuperNode(true)\<close> sets the \<open>isSuperNode\<close> flag
  of a manager that was configured with \<open>noSuperNode = true\<close>. Neither setter reads the
  opt-out flag that the election and the failover test.
\<close>

theorem SetAsSuperNode_ignores_optout:
  "rbind (AddNode 95 (managerWith [] True)
            \<lparr>ID = ''10.0.0.3:8080'', Address = ''10.0.0.3:8080'', Nickname = ''P'',
             NoSuperNode = True\<rparr>) (\<lambda>sm.
     rbind (SetAsSuperNode 100 sm ''10.0.0.3:8080'') (\<lambda>sm'. Ok (roles sm')))
     = Ok [(''10.0.0.3:8080'', True, True)] \<and>
   roles optOutState =
     [(''10.0.0.2:8080'', False, True), (''10.0.0.3:8080'', True, False),
      (''10.0.0.4:8080'', False, False)] \<and>
   rbind (SetAsSuperNode 100 optOutState ''10.0.0.3:8080'') (\<lambda>sm'. Ok (roles sm')) =
     Ok [(''10.0.0.2:8080'', False, True), (''10.0.0.3:8080'', True, True),
         (''10.0.0.4:8080'', False, False)] \<and>
   noSuperNode (managerWith [] True) \<and> isSuperNode (managerWith [] True) = False \<and>
   rbind (SetLocalNodeAsSuperNode (managerWith [] True) True)
     (\<lambda>sm'. Ok (noSuperNode sm', isSuperNode sm')) = Ok (True, True)"
  by code_simp

text \<open>
  Claim C8 (failover). The claim does not hold of the code. With one live Relay
  (10.0.0.2:8080) and three live Regular peers that have not opted out,
  \<open>HandleNodeLeave\<close> of the Relay takes the write lock, finds the Relay, and the failover
  loop asks \<open>checkIfNodeIsNoSuperNode\<close> about the first Regular peer: its \<open>RLock\<close> waits
  for the write lock that the same call holds. The call never returns; no peer is
  promoted and the Relay is not removed.
\<close>

theorem HandleNodeLeave_deadlocks:
  "roles failoverState =
     [(''10.0.0.2:8080'', False, True), (''10.0.0.3:8080'', False, False),
      (''10.0.0.4:8080'', False, False), (''10.0.0.5:8080'', False, False)] \<and>
   mu failoverState = Unlocked \<and>
   HandleNodeLeave 100 failoverState ''10.0.0.2:8080'' = Blocks"
  by code_simp

text \<open>The same in general: the failover of a last live Relay blocks as soon as the table
  holds a live Regular peer other than the local node.\<close>

lemma HandleNodeLeave_relay_blocks:
  assumes "mu sm = Unlocked"
    and "findIndex (\<lambda>sn. ID sn = nodeID) (supernodes sm) = Some i"
    and "IsSuperNode (supernodes sm ! i)"
    and "length (filter (\<lambda>sn. IsSuperNode sn \<and> active now sn) (supernodes sm)) \<le> 1"
    and "\<exists>sn\<in>set (supernodes sm). \<not> IsSuperNode sn \<and> active now sn \<and> ID sn \<noteq> Address (localNodeInfo sm)"
  shows "HandleNodeLeave now sm nodeID = Blocks"
proof -
  let ?smL = "sm\<lparr>mu := WLocked\<rparr>"
  have L: "mu ?smL = WLocked" by simp
  have "selectNewSuperNode now ?smL = Blocks"
    using assms(5) by (simp add: selectNewSuperNode_def selectLoop_locked [OF L] rbind_def)
  then have "handleSuperNodeLeave now ?smL = Blocks"
    using assms(4) by (simp add: handleSuperNodeLeave_def)
  then show ?thesis
    using assms(1,2,3) by (simp add: HandleNodeLeave_def Lock_def rbind_def)
qed

section \<open>Properties of discovery and of the session\<close>

lemma electIfSecond_Room: "Room (fst (electIfSecond now p)) = Room p"
  by (simp add: electIfSecond_def split: result.splits prod.splits)

lemma electIfSecond_LocalNode: "LocalNode (fst (electIfSecond now p)) = LocalNode p"
  by (simp add: electIfSecond_def split: result.splits prod.splits)

lemma admitNode_Nodes:
  "Nodes (Room (fst (admitNode cfg now p n))) =
     (if int (length (Nodes (Room p))) \<ge> MaxNodes cfg then Nodes (Room p) else Nodes (Room p) @ [n])"
  by (simp add: admitNode_def Let_def electIfSecond_Room split: result.splits)

lemma admitNode_LocalNode: "LocalNode (fst (admitNode cfg now p n)) = LocalNode p"
  by (simp add: admitNode_def Let_def electIfSecond_LocalNode split: result.splits)

lemma listenStep_LocalNode: "LocalNode (fst (listenStep cfg now p ev)) = LocalNode p"
  by (simp add: listenStep_def Let_def admitNode_LocalNode split: udp_event.splits option.splits)

lemma listenStep_Nodes:
  "Nodes (Room (fst (listenStep cfg now p ev))) = Nodes (Room p) \<or>
   (int (length (Nodes (Room p))) < MaxNodes cfg \<and>
    (\<exists>n. Nodes (Room (fst (listenStep cfg now p ev))) = Nodes (Room p) @ [n] \<and>
         ID n \<noteq> Address (LocalNode p) \<and> ID n \<notin> ID ` set (Nodes (Room p))))"
proof (cases ev)
  case ReadError
  then show ?thesis by (simp add: listenStep_def)
next
  case (Received r addr)
  show ?thesis
  proof (cases r)
    case None
    with Received show ?thesis by (simp add: listenStep_def)
  next
    case (Some received)
    define n1 where "n1 = (if ID received = [] then received\<lparr>NoSuperNode := False\<rparr> else received)"
    define nodeInfo where "nodeInfo = (if Address n1 = [] then n1\<lparr>Address := addr\<rparr> else n1)"
    have step: "listenStep cfg now p ev =
       (if \<not> list_ex (\<lambda>node. ID node = ID nodeInfo) (Nodes (Room p)) \<and> ID nodeInfo \<noteq> Address (LocalNode p)
        then admitNode cfg now p nodeInfo else (p, True))"
      using Received Some by (simp add: listenStep_def Let_def n1_def nodeInfo_def)
    show ?thesis
    proof (cases "\<not> list_ex (\<lambda>node. ID node = ID nodeInfo) (Nodes (Room p)) \<and> ID nodeInfo \<noteq> Address (LocalNode p)")
      case False
      with step show ?thesis by auto
    next
      case True
      then have "ID nodeInfo \<notin> ID ` set (Nodes (Room p))" by (auto simp: list_ex_iff)
      with True step show ?thesis by (auto simp: admitNode_Nodes)
    qed
  qed
qed

lemma listenStep_cap:
  "int (length (Nodes (Room p))) \<le> MaxNodes cfg \<Longrightarrow>
   int (length (Nodes (Room (fst (listenStep cfg now p ev))))) \<le> MaxNodes cfg"
  using listenStep_Nodes [of cfg now p ev] by auto

lemma listenStep_full:
  "int (length (Nodes (Room p))) \<ge> MaxNodes cfg \<Longrightarrow>
   Nodes (Room (fst (listenStep cfg now p ev))) = Nodes (Room p)"
  using listenStep_Nodes [of cfg now p ev] by auto

lemma listenForBroadcasts_cap:
  "int (length (Nodes (Room p))) \<le> MaxNodes cfg \<Longrightarrow>
   int (length (Nodes (Room (fst (listenForBroadcasts cfg p evs))))) \<le> MaxNodes cfg"
proof (induction evs arbitrary: p)
  case Nil
  then show ?case by simp
next
  case (Cons e evs)
  obtain now ev where e: "e = (now, ev)" by (cases e)
  obtain p' r where st: "listenStep cfg now p ev = (p', r)" by (cases "listenStep cfg now p ev")
  have "int (length (Nodes (Room p'))) \<le> MaxNodes cfg"
    using listenStep_cap [OF Cons.prems, of now ev] st by simp
  with Cons.IH [of p'] e st show ?case by (cases r) simp_all
qed

lemma listenForBroadcasts_full:
  "int (length (Nodes (Room p))) \<ge> MaxNodes cfg \<Longrightarrow>
   Nodes (Room (fst (listenForBroadcasts cfg p evs))) = Nodes (Room p)"
proof (induction evs arbitrary: p)
  case Nil
  then show ?case by simp
next
  case (Cons e evs)
  obtain now ev where e: "e = (now, ev)" by (cases e)
  obtain p' r where st: "listenStep cfg now p ev = (p', r)" by (cases "listenStep cfg now p ev")
  have eq: "Nodes (Room p') = Nodes (Room p)"
    using listenStep_full [OF Cons.prems, of now ev] st by simp
  with Cons.IH [of p'] Cons.prems e st show ?case by (cases r) simp_all
qed


lemma NewP2PChat_fresh:
  "NewP2PChat cfg nickname env = Ok p \<Longrightarrow>
   Nodes (Room p) = [] \<and> RoomInfo_ID (Room p) = [] \<and>
   NoSuperNode (LocalNode p) = Config_NoSuperNode cfg \<and> mu (SuperNodeMgr p) = Unlocked"
  by (auto simp: NewP2PChat_def newClient_def NewSuperNodeManager_def Let_def
      split: result.splits prod.splits)

lemma listenForBroadcasts_LocalNode:
  "LocalNode (fst (listenForBroadcasts cfg p evs)) = LocalNode p"
proof (induction evs arbitrary: p)
  case Nil
  then show ?case by simp
next
  case (Cons e evs)
  obtain now ev where e: "e = (now, ev)" by (cases e)
  obtain p' r where st: "listenStep cfg now p ev = (p', r)" by (cases "listenStep cfg now p ev")
  have "LocalNode p' = LocalNode p" using listenStep_LocalNode [of cfg now p ev] st by simp
  with Cons.IH [of p'] e st show ?case by (cases r) simp_all
qed

lemma listenForBroadcasts_no_local:
  "\<forall>n\<in>set (Nodes (Room p)). ID n \<noteq> Address (LocalNode p) \<Longrightarrow>
   \<forall>n\<in>set (Nodes (Room (fst (listenForBroadcasts cfg p evs)))). ID n \<noteq> Address (LocalNode p)"
proof (induction evs arbitrary: p)
  case Nil
  then show ?case by simp
next
  case (Cons e evs)
  obtain now ev where e: "e = (now, ev)" by (cases e)
  obtain p' r where st: "listenStep cfg now p ev = (p', r)" by (cases "listenStep cfg now p ev")
  have l: "LocalNode p' = LocalNode p" using listenStep_LocalNode [of cfg now p ev] st by simp
  have n: "\<forall>n\<in>set (Nodes (Room p')). ID n \<noteq> Address (LocalNode p')"
    using listenStep_Nodes [of cfg now p ev] st l Cons.prems by auto
  show ?case
  proof (cases r)
    case True
    with Cons.IH [OF n] l e st show ?thesis by simp
  next
    case False
    with n l e st show ?thesis by simp
  qed
qed

lemma findIndex_Some: "findIndex P xs = Some i \<Longrightarrow> i < length xs \<and> P (xs ! i)"
  by (induction xs arbitrary: i) (auto split: if_splits)

lemma findIndex_None: "findIndex P xs = None \<Longrightarrow> \<forall>x\<in>set xs. \<not> P x"
  by (induction xs) (auto split: if_splits)

lemma AddNode_unlocked:
  assumes "mu sm = Unlocked" and "\<forall>sn\<in>set (supernodes sm). \<not> IsSuperNode sn"
  shows "\<exists>sm1. AddNode now sm n = Ok sm1 \<and> mu sm1 = Unlocked \<and>
           localNodeInfo sm1 = localNodeInfo sm \<and>
           (\<exists>sn\<in>set (supernodes sm1). ID sn = ID n) \<and>
           (\<forall>sn\<in>set (supernodes sm1). \<not> IsSuperNode sn)"
proof (cases "findIndex (\<lambda>sn. ID sn = ID n) (supernodes sm)")
  case None
  with assms show ?thesis
    by (auto simp: AddNode_def Lock_def Unlock_def rbind_def)
next
  case (Some i)
  from findIndex_Some [OF Some] have i: "i < length (supernodes sm)" and id: "ID (supernodes sm ! i) = ID n"
    by simp_all
  let ?e = "(supernodes sm ! i)\<lparr>Address := Address n, Nickname := Nickname n,
                NoSuperNode := NoSuperNode n, LastActive := now\<rparr>"
  let ?sm1 = "Unlock ((sm\<lparr>mu := WLocked\<rparr>)\<lparr>supernodes := (supernodes sm)[i := ?e]\<rparr>)"
  have r: "AddNode now sm n = Ok ?sm1"
    using assms(1) Some by (simp add: AddNode_def Lock_def rbind_def)
  have e1: "ID ?e = ID n" using id by simp
  have e2: "\<not> IsSuperNode ?e" using assms(2) i by simp
  have mem: "?e \<in> set ((supernodes sm)[i := ?e])" using i by (simp add: set_update_memI)
  have all: "\<forall>sn\<in>set ((supernodes sm)[i := ?e]). \<not> IsSuperNode sn"
  proof
    fix sn assume "sn \<in> set ((supernodes sm)[i := ?e])"
    then have "sn = ?e \<or> sn \<in> set (supernodes sm)"
      using set_update_subset_insert [of "supernodes sm" i ?e] by auto
    with e2 assms(2) show "\<not> IsSuperNode sn" by auto
  qed
  have ex: "\<exists>sn\<in>set ((supernodes sm)[i := ?e]). ID sn = ID n"
    using mem e1 by blast
  show ?thesis
    using r ex all by (simp add: Unlock_def)
qed

lemma admitNode_first:
  assumes "quiet p" and "length (Nodes (Room p)) \<noteq> 1"
  shows "quiet (fst (admitNode cfg now p n)) \<and> snd (admitNode cfg now p n)"
proof (cases "int (length (Nodes (Room p))) \<ge> MaxNodes cfg")
  case True
  with assms show ?thesis by (simp add: admitNode_def)
next
  case False
  let ?p1 = "p\<lparr>Room := (Room p)\<lparr>Nodes := Nodes (Room p) @ [n]\<rparr>\<rparr>"
  from assms(1) AddNode_unlocked [of "SuperNodeMgr p" now n] obtain sm1 where
    sm1: "AddNode now (SuperNodeMgr p) n = Ok sm1" "mu sm1 = Unlocked"
      "localNodeInfo sm1 = localNodeInfo (SuperNodeMgr p)"
      "\<forall>sn\<in>set (supernodes sm1). \<not> IsSuperNode sn"
    by (auto simp: quiet_def)
  have "electIfSecond now (?p1\<lparr>SuperNodeMgr := sm1\<rparr>) = (?p1\<lparr>SuperNodeMgr := sm1\<rparr>, True)"
    using assms(2) by (simp add: electIfSecond_def)
  with False sm1 assms(1) show ?thesis
    by (simp add: admitNode_def Let_def quiet_def)
qed

lemma admitNode_second:
  assumes "quiet p" and "length (Nodes (Room p)) = 1" and "ID n \<noteq> Address (LocalNode p)"
  shows "length (Nodes (Room (fst (admitNode cfg now p n)))) \<le> 2 \<and>
         (length (Nodes (Room (fst (admitNode cfg now p n)))) = 2 \<longrightarrow> \<not> snd (admitNode cfg now p n)) \<and>
         (length (Nodes (Room (fst (admitNode cfg now p n)))) = 1 \<longrightarrow>
            fst (admitNode cfg now p n) = p \<and> snd (admitNode cfg now p n))"
proof (cases "int (length (Nodes (Room p))) \<ge> MaxNodes cfg")
  case True
  with assms show ?thesis by (simp add: admitNode_def)
next
  case False
  let ?p1 = "p\<lparr>Room := (Room p)\<lparr>Nodes := Nodes (Room p) @ [n]\<rparr>\<rparr>"
  from assms(1) AddNode_unlocked [of "SuperNodeMgr p" now n] obtain sm1 where
    sm1: "AddNode now (SuperNodeMgr p) n = Ok sm1" "mu sm1 = Unlocked"
      "localNodeInfo sm1 = localNodeInfo (SuperNodeMgr p)"
      "\<exists>sn\<in>set (supernodes sm1). ID sn = ID n"
      "\<forall>sn\<in>set (supernodes sm1). \<not> IsSuperNode sn"
    by (auto simp: quiet_def)
  have g: "GetSuperNodes now sm1 = Ok []"
    using sm1(2,5) by (simp add: GetSuperNodes_def RLock_def rbind_def filter_empty_conv)
  from sm1(4) obtain sn where sn: "sn \<in> set (supernodes sm1)" "ID sn = ID n" by blast
  have "Address (localNodeInfo sm1) = Address (LocalNode p)"
    using sm1(3) assms(1) by (simp add: quiet_def)
  with sn assms(3) have "\<exists>sn\<in>set (supernodes sm1). ID sn \<noteq> Address (localNodeInfo sm1)"
    by (intro bexI [of _ sn]) simp_all
  then have b: "SelectInitialSuperNode now sm1 = Blocks"
    using sm1(2) by (simp add: SelectInitialSuperNode_unlocked)
  have "snd (electIfSecond now (?p1\<lparr>SuperNodeMgr := sm1\<rparr>)) = False"
    using assms(2) g b by (simp add: electIfSecond_def)
  with False sm1(1) assms(2) show ?thesis
    by (simp add: admitNode_def Let_def electIfSecond_Room)
qed

lemma listenStep_quiet:
  assumes "quiet p" and "length (Nodes (Room p)) \<le> 1"
  shows "(snd (listenStep cfg now p ev) \<longrightarrow>
            quiet (fst (listenStep cfg now p ev)) \<and>
            length (Nodes (Room (fst (listenStep cfg now p ev)))) \<le> 1) \<and>
         length (Nodes (Room (fst (listenStep cfg now p ev)))) \<le> 2"
proof (cases ev)
  case ReadError
  with assms show ?thesis by (simp add: listenStep_def)
next
  case (Received r addr)
  show ?thesis
  proof (cases r)
    case None
    with Received assms show ?thesis by (simp add: listenStep_def)
  next
    case (Some received)
    define n1 where "n1 = (if ID received = [] then received\<lparr>NoSuperNode := False\<rparr> else received)"
    define nodeInfo where "nodeInfo = (if Address n1 = [] then n1\<lparr>Address := addr\<rparr> else n1)"
    have step: "listenStep cfg now p ev =
       (if \<not> list_ex (\<lambda>node. ID node = ID nodeInfo) (Nodes (Room p)) \<and> ID nodeInfo \<noteq> Address (LocalNode p)
        then admitNode cfg now p nodeInfo else (p, True))"
      using Received Some by (simp add: listenStep_def Let_def n1_def nodeInfo_def)
    show ?thesis
    proof (cases "\<not> list_ex (\<lambda>node. ID node = ID nodeInfo) (Nodes (Room p)) \<and> ID nodeInfo \<noteq> Address (LocalNode p)")
      case False
      with step assms show ?thesis by auto
    next
      case True
      let ?r = "admitNode cfg now p nodeInfo"
      have st: "listenStep cfg now p ev = ?r" using step True by simp
      have idn: "ID nodeInfo \<noteq> Address (LocalNode p)" using True by simp
      show ?thesis
      proof (cases "length (Nodes (Room p)) = 1")
        case one: True
        note s = admitNode_second [OF assms(1) one idn, of cfg now]
        have le2: "length (Nodes (Room (fst ?r))) \<le> 2" using s by simp
        have run: "snd ?r \<longrightarrow> quiet (fst ?r) \<and> length (Nodes (Room (fst ?r))) \<le> 1"
        proof
          assume r: "snd ?r"
          with s have "length (Nodes (Room (fst ?r))) \<noteq> 2" by blast
          moreover have "length (Nodes (Room (fst ?r))) = 1 \<or> length (Nodes (Room (fst ?r))) = 2"
            using one by (simp add: admitNode_Nodes)
          ultimately have l1: "length (Nodes (Room (fst ?r))) = 1" by blast
          with s have "fst ?r = p" by blast
          with assms(1) l1 show "quiet (fst ?r) \<and> length (Nodes (Room (fst ?r))) \<le> 1" by simp
        qed
        show ?thesis unfolding st using run le2 by blast
      next
        case zero: False
        with assms(2) have z: "length (Nodes (Room p)) = 0" by arith
        have a: "quiet (fst ?r) \<and> snd ?r" using admitNode_first [OF assms(1) zero] .
        have l: "length (Nodes (Room (fst ?r))) \<le> 1" using z by (simp add: admitNode_Nodes)
        show ?thesis unfolding st using a l by simp
      qed
    qed
  qed
qed

lemma listenForBroadcasts_at_most_two:
  "quiet p \<Longrightarrow> length (Nodes (Room p)) \<le> 1 \<Longrightarrow>
   length (Nodes (Room (fst (listenForBroadcasts cfg p evs)))) \<le> 2"
proof (induction evs arbitrary: p)
  case Nil
  then show ?case by simp
next
  case (Cons e evs)
  obtain now ev where e: "e = (now, ev)" by (cases e)
  obtain p' r where st: "listenStep cfg now p ev = (p', r)" by (cases "listenStep cfg now p ev")
  note q = listenStep_quiet [OF Cons.prems, of cfg now ev]
  show ?case
  proof (cases r)
    case True
    with q st have "quiet p'" "length (Nodes (Room p')) \<le> 1" by simp_all
    from Cons.IH [OF this] e st True show ?thesis by simp
  next
    case False
    with q st e show ?thesis by simp
  qed
qed

lemma quiet_initial: "quiet creatorState \<and> quiet joinerState"
  by code_simp

lemma newClient_offline: "newClient defaultConfig ''Me'' ''10.0.0.1'' 8080 = freshClient"
  by (simp add: newClient_def freshClient_def localNode0_def defaultConfig_def Itoa_def
      showNat.simps digit_def Let_def)

lemma NewP2PChat_offline: "NewP2PChat defaultConfig ''Me'' offlineEnv = Ok freshClient"
proof -
  have "\<forall>s\<in>set stunServers. \<exists>e. sendSTUNRequest (stun offlineEnv) s = Err e"
    by (simp add: offlineEnv_def sendSTUNRequest_def)
  from getPublicIPAndPort_fallback [OF this, of 8080]
  have "getPublicIPAndPort 8080 offlineEnv = Ok (''10.0.0.1'', 8080)"
    by (simp add: offlineEnv_def getLocalIP_def)
  then show ?thesis using newClient_offline by (simp add: NewP2PChat_def defaultConfig_def)
qed

lemma CreateRoom_creatorState:
  "CreateRoom defaultConfig demoLib (Some (replicate 16 0)) freshClient ''r1'' = Ok creatorState"
  by code_simp

text \<open>
  Claim C6 (admission cap). The claim does not hold of the code. With the default cap
  of 100, the creator of a room (one member, itself) hears 101 distinct peers: the first
  is admitted, the room has two members, and \<open>listenForBroadcasts\<close> calls
  \<open>SelectInitialSuperNode\<close>, which takes the manager's write lock and then asks
  \<open>checkIfNodeIsNoSuperNode\<close> about the new peer. That call waits for the lock its caller
  holds; the receive loop never reads another datagram, and the room stays at two
  members instead of reaching 100.

  This is so for every room and every sequence of datagrams: from a created or joined
  room the member list never grows beyond two (\<open>listenForBroadcasts_at_most_two\<close>,
  \<open>quiet_initial\<close>). The cap itself is respected by every run of the loop
  (\<open>listenForBroadcasts_cap\<close>), and at the cap no announcement changes the member list
  (\<open>listenForBroadcasts_full\<close>); the code has no operation that removes a member.
\<close>

theorem listenForBroadcasts_stops_at_two:
  "MaxNodes defaultConfig = 100 \<and>
   CreateRoom defaultConfig demoLib (Some (replicate 16 0)) freshClient ''r1'' = Ok creatorState \<and>
   length (announcements 101) = 101 \<and>
   (case listenForBroadcasts defaultConfig creatorState (announcements 101) of
      (p', running) \<Rightarrow> (map ID (Nodes (Room p')), running, mu (SuperNodeMgr p')))
     = ([''10.0.0.1:8080'', ''10.0.1.0:8080''], False, WLocked)"
  by code_simp

text \<open>
  Claim C10 (\<open>JoinRoom\<close> and the member list). For a client as \<open>NewP2PChat\<close> builds it,
  a successful \<open>JoinRoom\<close> leaves the member list empty and leaves the local node, the
  running flag and the public address as they were (it writes the room id, the
  password, the message key and the manager); discovery never adds an entry with the
  local node's id afterwards; \<open>CreateRoom\<close> on the same client makes the local node the
  one member.
\<close>

theorem JoinRoom_member_list:
  assumes "NewP2PChat cfg nickname env = Ok p" and "JoinRoom cfg L p roomID password = Ok p'"
  shows "Nodes (Room p') = [] \<and>
         RoomInfo_ID (Room p') = roomID \<and> Password (Room p') = password \<and>
         base64Decode L password = Some (MessageKey p') \<and>
         LocalNode p' = LocalNode p \<and> Running p' = Running p \<and>
         PublicIP p' = PublicIP p \<and> PublicPort p' = PublicPort p \<and>
         (\<forall>n\<in>set (Nodes (Room (fst (listenForBroadcasts cfg p' evs)))).
            ID n \<noteq> Address (LocalNode p')) \<and>
         (CreateRoom cfg L rnd p roomID = Ok p'' \<longrightarrow>
            map ID (Nodes (Room p'')) = [Address (LocalNode p)])"
proof -
  note f = NewP2PChat_fresh [OF assms(1)]
  from assms(2) obtain key where
    key: "base64Decode L password = Some key" and
    p': "p' = p\<lparr>Room := (Room p)\<lparr>RoomInfo_ID := roomID, Password := password\<rparr>,
               MessageKey := key,
               LocalNode := (LocalNode p)\<lparr>NoSuperNode := Config_NoSuperNode cfg\<rparr>,
               SuperNodeMgr := NewSuperNodeManager ((LocalNode p)\<lparr>NoSuperNode := Config_NoSuperNode cfg\<rparr>)
                                 key (TCPPort cfg) (UDPPort cfg) (Config_NoSuperNode cfg)\<rparr>"
    by (auto simp: JoinRoom_def Let_def split: option.splits if_splits)
  have nodes: "Nodes (Room p') = []" using p' f by simp
  have ln: "LocalNode p' = LocalNode p" using p' f by simp
  have rest: "Running p' = Running p \<and> PublicIP p' = PublicIP p \<and> PublicPort p' = PublicPort p"
    using p' by simp
  have nl: "\<forall>n\<in>set (Nodes (Room (fst (listenForBroadcasts cfg p' evs)))). ID n \<noteq> Address (LocalNode p')"
    using listenForBroadcasts_no_local [of p' cfg evs] nodes by simp
  have cr: "CreateRoom cfg L rnd p roomID = Ok p'' \<longrightarrow> map ID (Nodes (Room p'')) = [Address (LocalNode p)]"
    using f by (auto simp: CreateRoom_def Let_def split: option.splits)
  have set: "RoomInfo_ID (Room p') = roomID \<and> Password (Room p') = password \<and>
      base64Decode L password = Some (MessageKey p')"
    using p' key by simp
  show ?thesis using nodes set ln rest nl cr by blast
qed

theorem JoinRoom_member_list_witness:
  "NewP2PChat defaultConfig ''Me'' offlineEnv = Ok freshClient \<and>
   JoinRoom defaultConfig demoLib freshClient ''r1'' ''AAAAAAAAAAAAAAAAAAAAAA=='' = Ok joinerState \<and>
   Nodes (Room joinerState) = [] \<and>
   LocalNode joinerState = LocalNode freshClient \<and>
   CreateRoom defaultConfig demoLib (Some (replicate 16 0)) freshClient ''r1'' = Ok creatorState \<and>
   map ID (Nodes (Room creatorState)) = [Address (LocalNode freshClient)]"
proof -
  have j: "JoinRoom defaultConfig demoLib freshClient ''r1'' ''AAAAAAAAAAAAAAAAAAAAAA==''
             = Ok joinerState"
    by code_simp
  from JoinRoom_member_list [OF NewP2PChat_offline j, of "[]" "Some (replicate 16 0)" creatorState]
  show ?thesis using NewP2PChat_offline j CreateRoom_creatorState by simp
qed

section \<open>Properties of the transport\<close>

lemma forwardRegular_unlocked:
  "mu sm = Unlocked \<Longrightarrow>
   forwardRegular sm localAddr remoteAddr nodes =
     Ok (map Address (filter (\<lambda>node. Address node \<noteq> localAddr \<and> Address node \<noteq> remoteAddr \<and>
                                     \<not> markedRelay sm (Address node)) nodes))"
  by (induction nodes) (auto simp: GetNode_def RLock_def rbind_def markedRelay_def)

lemma forwardSuperNodes_unlocked:
  assumes "mu sm = Unlocked"
  shows "forwardSuperNodes now sm localAddr remoteAddr =
     Ok (map Address (filter (\<lambda>sn. active now sn \<and> IsSuperNode sn \<and>
                                   Address sn \<noteq> localAddr \<and> Address sn \<noteq> remoteAddr)
           (supernodes sm)))"
proof -
  have "(\<lambda>sn. \<not> (Address sn = localAddr \<or> Address sn = remoteAddr) \<and> active now sn \<and> IsSuperNode sn)
      = (\<lambda>sn. active now sn \<and> IsSuperNode sn \<and> Address sn \<noteq> localAddr \<and> Address sn \<noteq> remoteAddr)"
    by auto
  then show ?thesis
    using assms by (simp add: forwardSuperNodes_def GetSuperNodes_def RLock_def rbind_def)
qed

text \<open>
  What the two loops do on a local Relay whose manager is not locked, once relay mode
  is active for the member count (more than five members): a message read from a
  connection with the remote address \<open>remoteAddr\<close> goes, in the first loop, to the
  members whose address is neither the local address nor \<open>remoteAddr\<close> and that the
  table does not mark as Relay, and in the second loop to the live Relays whose address
  is neither of the two.
\<close>

lemma handleMessage_forwarding:
  assumes "RoomID message = RoomInfo_ID (Room p)"
    and "ShouldEnableSuperNodeMode (SuperNodeMgr p) (length (Nodes (Room p)))"
    and "isSuperNode (SuperNodeMgr p)"
    and "mu (SuperNodeMgr p) = Unlocked"
  shows "\<exists>regular relays.
           handleMessage now p remoteAddr message = Ok (Delivered regular relays message) \<and>
           regular = map Address (filter (\<lambda>node. Address node \<noteq> Address (LocalNode p) \<and>
                        Address node \<noteq> remoteAddr \<and>
                        \<not> markedRelay (SuperNodeMgr p) (Address node)) (Nodes (Room p))) \<and>
           relays = map Address (filter (\<lambda>sn. active now sn \<and> IsSuperNode sn \<and>
                        Address sn \<noteq> Address (LocalNode p) \<and> Address sn \<noteq> remoteAddr)
                        (supernodes (SuperNodeMgr p))) \<and>
           Address (LocalNode p) \<notin> set regular \<union> set relays \<and>
           remoteAddr \<notin> set regular \<union> set relays"
proof -
  let ?regular = "map Address (filter (\<lambda>node. Address node \<noteq> Address (LocalNode p) \<and>
                        Address node \<noteq> remoteAddr \<and>
                        \<not> markedRelay (SuperNodeMgr p) (Address node)) (Nodes (Room p)))"
  let ?relays = "map Address (filter (\<lambda>sn. active now sn \<and> IsSuperNode sn \<and>
                        Address sn \<noteq> Address (LocalNode p) \<and> Address sn \<noteq> remoteAddr)
                        (supernodes (SuperNodeMgr p)))"
  have isSN: "IsLocalNodeSuperNode (SuperNodeMgr p) = Ok True"
    using assms(3,4) by (simp add: IsLocalNodeSuperNode_def RLock_def rbind_def)
  have h: "handleMessage now p remoteAddr message = Ok (Delivered ?regular ?relays message)"
    unfolding handleMessage_def
    using assms(1,2) isSN forwardRegular_unlocked [OF assms(4)] forwardSuperNodes_unlocked [OF assms(4)]
    by (simp add: rbind_def)
  have n1: "Address (LocalNode p) \<notin> set ?regular \<union> set ?relays" by auto
  have n2: "remoteAddr \<notin> set ?regular \<union> set ?relays" by auto
  show ?thesis using h n1 n2 by blast
qed

text \<open>
  The members are listed under the address they advertise, the address they listen on.
  A connection that a member has dialled has the port of the dialling socket in its
  remote address, which is the address of no member. Then the comparison with
  \<open>remoteAddr\<close> excludes nobody: every member other than the local node that the table
  does not mark as Relay is forwarded to, the sender included.
\<close>

lemma handleMessage_sender_not_excluded:
  assumes "RoomID message = RoomInfo_ID (Room p)"
    and "ShouldEnableSuperNodeMode (SuperNodeMgr p) (length (Nodes (Room p)))"
    and "isSuperNode (SuperNodeMgr p)"
    and "mu (SuperNodeMgr p) = Unlocked"
    and "remoteAddr \<notin> Address ` set (Nodes (Room p))"
  shows "\<exists>relays.
           handleMessage now p remoteAddr message =
             Ok (Delivered
                   (map Address (filter (\<lambda>node. Address node \<noteq> Address (LocalNode p) \<and>
                        \<not> markedRelay (SuperNodeMgr p) (Address node)) (Nodes (Room p))))
                   relays message)"
proof -
  have "filter (\<lambda>node. Address node \<noteq> Address (LocalNode p) \<and> Address node \<noteq> remoteAddr \<and>
                  \<not> markedRelay (SuperNodeMgr p) (Address node)) (Nodes (Room p))
      = filter (\<lambda>node. Address node \<noteq> Address (LocalNode p) \<and>
                  \<not> markedRelay (SuperNodeMgr p) (Address node)) (Nodes (Room p))"
    using assms(5) by (intro filter_cong) auto
  with handleMessage_forwarding [OF assms(1-4), of now remoteAddr] show ?thesis
    by auto
qed

text \<open>
  Below the threshold neither loop runs: with exactly the members self (Relay), A, B
  (Regular) and C (Relay) and relay mode enabled, a message from A is displayed and
  forwarded to nobody.
\<close>

lemma handleMessage_four_members:
  "map Address (Nodes (Room fourMembers))
     = [''10.0.0.1:8080'', ''10.0.0.2:8080'', ''10.0.0.3:8080'', ''10.0.0.4:8080''] \<and>
   Address (LocalNode fourMembers) = ''10.0.0.1:8080'' \<and>
   roles (SuperNodeMgr fourMembers)
     = [(''10.0.0.2:8080'', False, False), (''10.0.0.3:8080'', False, False),
        (''10.0.0.4:8080'', False, True)] \<and>
   isSuperNode (SuperNodeMgr fourMembers) \<and> superNodeMode (SuperNodeMgr fourMembers) \<and>
   handleMessage 100 fourMembers ''10.0.0.2:51234'' demoMessage
     = Ok (Delivered [] [] demoMessage)"
  by code_simp

text \<open>
  Claim C3 (loop avoidance). The claim does not hold of the code. The handler takes as
  the sender the member whose address equals \<open>conn.RemoteAddr().String()\<close>. Peer A is
  listed as 10.0.0.2:8080, and its message arrives on a connection that A has dialled,
  with the remote address 10.0.0.2:51234. In a room of seven members with relay mode
  active, the local Relay forwards A's message in the first loop to every Regular
  member, A among them; a message that the Relay C = 10.0.0.4:8080 sends from
  10.0.0.4:51234 goes back to C in the second loop. In both cases the local node is
  left out.
\<close>

theorem handleMessage_forwards_back_to_sender:
  "map Address (Nodes (Room (sevenMembers True)))
     = [''10.0.0.1:8080'', ''10.0.0.2:8080'', ''10.0.0.3:8080'', ''10.0.0.4:8080'',
        ''10.0.0.5:8080'', ''10.0.0.6:8080'', ''10.0.0.7:8080''] \<and>
   Address (LocalNode (sevenMembers True)) = ''10.0.0.1:8080'' \<and>
   roles (SuperNodeMgr (sevenMembers True))
     = [(''10.0.0.2:8080'', False, False), (''10.0.0.3:8080'', False, False),
        (''10.0.0.4:8080'', False, True), (''10.0.0.5:8080'', False, False),
        (''10.0.0.6:8080'', False, True), (''10.0.0.7:8080'', False, False)] \<and>
   isSuperNode (SuperNodeMgr (sevenMembers True)) \<and>
   ShouldEnableSuperNodeMode (SuperNodeMgr (sevenMembers True))
     (length (Nodes (Room (sevenMembers True)))) \<and>
   handleMessage 100 (sevenMembers True) ''10.0.0.2:51234'' demoMessage
     = Ok (Delivered
             [''10.0.0.2:8080'', ''10.0.0.3:8080'', ''10.0.0.5:8080'', ''10.0.0.7:8080'']
             [''10.0.0.4:8080'', ''10.0.0.6:8080''] demoMessage) \<and>
   handleMessage 100 (sevenMembers True) ''10.0.0.4:51234'' demoMessage
     = Ok (Delivered
             [''10.0.0.2:8080'', ''10.0.0.3:8080'', ''10.0.0.5:8080'', ''10.0.0.7:8080'']
             [''10.0.0.4:8080'', ''10.0.0.6:8080''] demoMessage)"
  by code_simp

section \<open>Properties of sending\<close>

lemma displays_simps [simp]:
  "displays [] = 0"
  "displays (Display ts c # es) = Suc (displays es)"
  "displays (Dial a # es) = displays es"
  "displays (es @ es') = displays es + displays es'"
  by (simp_all add: displays_def)

lemma displays_map_Dial [simp]: "displays (map Dial as) = 0"
  by (induction as) simp_all

lemma fanoutLoop_displays:
  "displays (fst (fanoutLoop l ts c nodes d)) = length (filter (\<lambda>node. Address node = l) nodes) \<and>
   snd (fanoutLoop l ts c nodes d) = (d \<or> (\<exists>node\<in>set nodes. Address node = l))"
  by (induction nodes arbitrary: d) (simp_all add: Let_def case_prod_beta)

lemma directFanout_displays:
  "displays (directFanout p ts c) = (if localEntries p = 0 then 1 else localEntries p)"
proof -
  obtain es d where f: "fanoutLoop (Address (LocalNode p)) ts c (Nodes (Room p)) False = (es, d)"
    by (cases "fanoutLoop (Address (LocalNode p)) ts c (Nodes (Room p)) False")
  from fanoutLoop_displays [of "Address (LocalNode p)" ts c "Nodes (Room p)" False] f
  have es: "displays es = localEntries p" and d: "d = (\<exists>node\<in>set (Nodes (Room p)). Address node = Address (LocalNode p))"
    by (simp_all add: localEntries_def)
  have "d \<longleftrightarrow> localEntries p \<noteq> 0"
    unfolding d localEntries_def by (auto simp: filter_empty_conv)
  with es f show ?thesis by (simp add: directFanout_def)
qed

lemma encryptAES_ok:
  "NewCipher key = None \<Longrightarrow> \<exists>c. encryptAES C (Some iv) key data = Ok c"
proof -
  assume k: "NewCipher key = None"
  have "length (pkcs7Pad data BlockSize) mod BlockSize = 0"
    by (simp add: pkcs7Pad_length)
  with k show ?thesis by (simp add: encryptAES_def CBCEncrypt_def rbind_def)
qed

text \<open>
  Claim C4 (local echo), as amended. A call of \<open>SendMessage\<close> that gets past
  serialisation and encryption (the key has a valid length, the IV is drawn), on a
  manager that is not locked and a member list with at most one entry at the local
  address, returns, and the sender's own line is printed exactly once in the direct
  fan-out, when the local node is a Relay, and in the fallback without a known Relay,
  whatever the network does. When a Regular peer sends through a known Relay, the line
  is printed once if the dial and the write to that Relay succeed, and not at all
  otherwise.
\<close>

theorem SendMessage_local_echo:
  assumes "mu (SuperNodeMgr p) = Unlocked"
    and "NewCipher (MessageKey p) = None"
    and "jsonMarshal L \<lparr>RoomID = RoomInfo_ID (Room p), Sender = Nickname (LocalNode p),
                        Timestamp = ts, Content = content\<rparr> = Some messageData"
    and "localEntries p \<le> 1"
  shows "\<exists>es. SendMessage L net now ts (Some iv) p content = Ok es \<and>
           displays es =
             (let relayMode = ShouldEnableSuperNodeMode (SuperNodeMgr p) (length (Nodes (Room p)));
                  liveRelays = filter (\<lambda>sn. active now sn \<and> IsSuperNode sn) (supernodes (SuperNodeMgr p))
              in if relayMode \<and> \<not> isSuperNode (SuperNodeMgr p) \<and> liveRelays \<noteq> [] then
                   if dialOk net (Address (hd liveRelays)) \<and> writeOk net (Address (hd liveRelays))
                   then 1 else 0
                 else 1)"
proof -
  let ?sm = "SuperNodeMgr p"
  let ?live = "filter (\<lambda>sn. active now sn \<and> IsSuperNode sn) (supernodes ?sm)"
  from encryptAES_ok [OF assms(2)] obtain c where
    c: "encryptAES (aes L) (Some iv) (MessageKey p) messageData = Ok c" by blast
  have d: "displays (directFanout p ts content) = 1"
    using directFanout_displays [of p ts content] assms(4) by (cases "localEntries p = 0") auto
  have isSN: "IsLocalNodeSuperNode ?sm = Ok (isSuperNode ?sm)"
    using assms(1) by (simp add: IsLocalNodeSuperNode_def RLock_def rbind_def)
  have fw: "\<exists>dials. ForwardMessageToSuperNodes now ?sm = Ok dials"
    using assms(1) by (simp add: ForwardMessageToSuperNodes_def GetSuperNodes_def RLock_def rbind_def)
  have best: "GetBestSuperNodeForConnection now ?sm = Ok (if ?live = [] then None else Some (hd ?live))"
    using assms(1)
    by (simp add: GetBestSuperNodeForConnection_def GetSuperNodes_def RLock_def rbind_def hd_conv_nth)
  show ?thesis
  proof (cases "ShouldEnableSuperNodeMode ?sm (length (Nodes (Room p)))")
    case False
    with c d assms(3) show ?thesis by (simp add: SendMessage_def rbind_def Let_def)
  next
    case True
    show ?thesis
    proof (cases "isSuperNode ?sm")
      case sn: True
      from fw obtain dials where "ForwardMessageToSuperNodes now ?sm = Ok dials" by blast
      with True sn c isSN assms(3) show ?thesis by (simp add: SendMessage_def rbind_def Let_def)
    next
      case sn: False
      show ?thesis
      proof (cases "?live = []")
        case e: True
        with True sn c d isSN best assms(3) show ?thesis
          by (simp add: SendMessage_def rbind_def Let_def)
      next
        case e: False
        with True sn c isSN best assms(3) show ?thesis
          by (simp add: SendMessage_def rbind_def Let_def)
      qed
    qed
  qed
qed

theorem SendMessage_local_echo_witness:
  "mu (SuperNodeMgr (sevenMembers False)) = Unlocked \<and>
   NewCipher (MessageKey (sevenMembers False)) = None \<and>
   localEntries (sevenMembers False) \<le> 1 \<and>
   (\<exists>es. SendMessage demoLib \<lparr>dialOk = (\<lambda>a. True), writeOk = (\<lambda>a. True)\<rparr> 100
            ''2026-01-10 12:00:00'' (Some (replicate 16 7)) (sevenMembers False) ''hi'' = Ok es \<and>
         displays es = 1) \<and>
   (\<exists>es. SendMessage demoLib \<lparr>dialOk = (\<lambda>a. False), writeOk = (\<lambda>a. False)\<rparr> 100
            ''2026-01-10 12:00:00'' (Some (replicate 16 7)) fourMembers ''hi'' = Ok es \<and>
         displays es = 1)"
proof -
  let ?ts = "''2026-01-10 12:00:00''"
  let ?p = "sevenMembers False"
  have a1: "mu (SuperNodeMgr ?p) = Unlocked" by code_simp
  have a2: "NewCipher (MessageKey ?p) = None" by code_simp
  have a3: "jsonMarshal demoLib \<lparr>RoomID = RoomInfo_ID (Room ?p), Sender = Nickname (LocalNode ?p),
              Timestamp = ?ts, Content = ''hi''\<rparr> = Some [104, 105]" by code_simp
  have a4: "localEntries ?p \<le> 1" by code_simp
  have v: "(let relayMode = ShouldEnableSuperNodeMode (SuperNodeMgr ?p) (length (Nodes (Room ?p)));
                liveRelays = filter (\<lambda>sn. active 100 sn \<and> IsSuperNode sn) (supernodes (SuperNodeMgr ?p))
            in if relayMode \<and> \<not> isSuperNode (SuperNodeMgr ?p) \<and> liveRelays \<noteq> [] then
                 if dialOk \<lparr>dialOk = (\<lambda>a. True), writeOk = (\<lambda>a. True)\<rparr> (Address (hd liveRelays)) \<and>
                    writeOk \<lparr>dialOk = (\<lambda>a. True), writeOk = (\<lambda>a. True)\<rparr> (Address (hd liveRelays))
                 then 1 else 0
               else 1) = (1::nat)" by code_simp
  have s1: "\<exists>es. SendMessage demoLib \<lparr>dialOk = (\<lambda>a. True), writeOk = (\<lambda>a. True)\<rparr> 100
            ?ts (Some (replicate 16 7)) ?p ''hi'' = Ok es \<and> displays es = 1"
    using SendMessage_local_echo [OF a1 a2 a3 a4, of "\<lparr>dialOk = (\<lambda>a. True), writeOk = (\<lambda>a. True)\<rparr>" 100 "replicate 16 7"]
    unfolding v .
  let ?q = "fourMembers"
  have b1: "mu (SuperNodeMgr ?q) = Unlocked" by code_simp
  have b2: "NewCipher (MessageKey ?q) = None" by code_simp
  have b3: "jsonMarshal demoLib \<lparr>RoomID = RoomInfo_ID (Room ?q), Sender = Nickname (LocalNode ?q),
              Timestamp = ?ts, Content = ''hi''\<rparr> = Some [104, 105]" by code_simp
  have b4: "localEntries ?q \<le> 1" by code_simp
  have w: "(let relayMode = ShouldEnableSuperNodeMode (SuperNodeMgr ?q) (length (Nodes (Room ?q)));
                liveRelays = filter (\<lambda>sn. active 100 sn \<and> IsSuperNode sn) (supernodes (SuperNodeMgr ?q))
            in if relayMode \<and> \<not> isSuperNode (SuperNodeMgr ?q) \<and> liveRelays \<noteq> [] then
                 if dialOk \<lparr>dialOk = (\<lambda>a. False), writeOk = (\<lambda>a. False)\<rparr> (Address (hd liveRelays)) \<and>
                    writeOk \<lparr>dialOk = (\<lambda>a. False), writeOk = (\<lambda>a. False)\<rparr> (Address (hd liveRelays))
                 then 1 else 0
               else 1) = (1::nat)" by code_simp
  have s2: "\<exists>es. SendMessage demoLib \<lparr>dialOk = (\<lambda>a. False), writeOk = (\<lambda>a. False)\<rparr> 100
            ?ts (Some (replicate 16 7)) ?q ''hi'' = Ok es \<and> displays es = 1"
    using SendMessage_local_echo [OF b1 b2 b3 b4, of "\<lparr>dialOk = (\<lambda>a. False), writeOk = (\<lambda>a. False)\<rparr>" 100 "replicate 16 7"]
    unfolding w .
  show ?thesis using a1 a2 a4 s1 s2 by blast
qed

text \<open>
  Claim C4 as stated fails in the branch of a Regular peer that knows a Relay: the
  line is printed by the goroutine after a successful write, so when the dial to the
  Relay 10.0.0.4:8080 fails nothing is displayed.
\<close>

theorem SendMessage_no_echo_when_dial_fails:
  "length (Nodes (Room (sevenMembers False))) = 7 \<and>
   isSuperNode (SuperNodeMgr (sevenMembers False)) = False \<and>
   SendMessage demoLib \<lparr>dialOk = (\<lambda>a. False), writeOk = (\<lambda>a. True)\<rparr> 100
     ''2026-01-10 12:00:00'' (Some (replicate 16 7)) (sevenMembers False) ''hi''
     = Ok [Dial ''10.0.0.4:8080''] \<and>
   displays [Dial ''10.0.0.4:8080''] = 0"
  by code_simp

end
